theory Spec2Isabelle
  imports Complex_Main "HOL-Library.Log_Nat" "HOL-Library.AList"
begin

section \<open>Values of the patch description and of the typetree\<close>

text \<open>
  The patcher (\<^verbatim>\<open>unity_input_patcher.py\<close>) handles two kinds of dynamically typed data:
  what \<^verbatim>\<open>json.loads\<close> returns for the patch description, and the typetree dictionary of
  the \<^verbatim>\<open>InputManager\<close> object. Both are built from \<^verbatim>\<open>None\<close>, \<^verbatim>\<open>bool\<close>, \<^verbatim>\<open>int\<close>,
  \<^verbatim>\<open>float\<close>, \<^verbatim>\<open>str\<close>, \<^verbatim>\<open>list\<close> and \<^verbatim>\<open>dict\<close> with string keys.

  A Python \<^verbatim>\<open>float\<close> is an IEEE 754 binary64 number. A finite one is kept as the
  rational it denotes (the two zeros are one value here: they compare equal and differ
  only in how they print); \<^verbatim>\<open>json.loads\<close> also accepts the literals \<^verbatim>\<open>Infinity\<close>,
  \<^verbatim>\<open>-Infinity\<close> and \<^verbatim>\<open>NaN\<close>.

  A NaN is the one value that is not equal to itself, so for it the object matters:
  comparing two containers, Python takes two elements that are the same object as equal
  without comparing them. \<open>NaN i\<close> is the NaN object number \<open>i\<close>. Every \<^verbatim>\<open>NaN\<close> literal
  of a JSON file is read as one and the same object (\<^verbatim>\<open>json.decoder.NaN\<close>); the NaNs of a
  typetree are objects of their own.
\<close>

datatype pyfloat = Fin rat | PosInf | NegInf | NaN nat

datatype pyval =
    PNone
  | PBool bool
  | PInt int
  | PFloat pyfloat
  | PStr string
  | PList "pyval list"
  | PDict "(string \<times> pyval) list"

type_synonym pydict = "(string \<times> pyval) list"

text \<open>A resolved directory: its anchor (drive or file-system root) and the names below it.\<close>

datatype path = Path string "string list"

text \<open>
  Every \<^verbatim>\<open>raise\<close> of the source, and every exception of a builtin the source calls, is a
  value. The constructors of the \<^verbatim>\<open>RuntimeError\<close>s carry what the message is formatted
  from.
\<close>

datatype error =
    OverflowError
  | TypeError
  | ValueError
  | AttributeError
  | IndexError int nat
  | AxisNameMismatch int string pyval
  | FieldNotPresent string int pyval
  | UnknownState int pyval string pyval pyval pyval
  | RootSanityCheckFailed path "string list"
  | MissingRequiredKey string
  | MissingFileString
  | TargetFileNotFound path string
  | MissingToggleList
  | ObjectNotFound string
  | AxesMissing
  | BadToggleEntry pyval
  | UnsupportedToggleType pyval
  | NonIntegerAxis pyval
  | MixedApplyRevert
  | PermissionError

section \<open>Binary64 arithmetic\<close>

text \<open>
  \<open>ilog2 y\<close> is the binary exponent of a positive rational: \<open>2 powi ilog2 y \<le> y < 2 powi (ilog2 y + 1)\<close>.
\<close>

definition ilog2 :: "rat \<Rightarrow> int" where
  "ilog2 y = (let (p, q) = quotient_of y;
                  e0 = int (floorlog 2 (nat p)) - int (floorlog 2 (nat q))
              in if 2 powi e0 \<le> y then e0 else e0 - 1)"

definition round_half_even :: "rat \<Rightarrow> int" where
  "round_half_even m = (let f = \<lfloor>m\<rfloor>; d = m - of_int f
     in if d < 1 / 2 then f else if 1 / 2 < d then f + 1 else if even f then f else f + 1)"

text \<open>
  Rounding of an exact result to binary64, to nearest with ties to even: 53 significant
  bits, least exponent \<open>-1022\<close> (below it the spacing stays \<open>2 powi - 1074\<close>), overflow to an
  infinity from \<open>2 ^ 1024\<close> on.
\<close>

definition round_double :: "rat \<Rightarrow> pyfloat" where
  "round_double x = (if x = 0 then Fin 0 else
     let y = \<bar>x\<bar>; e = ilog2 y; q = max e (- 1022) - 52;
         r = of_int (round_half_even (y / 2 powi q)) * 2 powi q
     in if 2 ^ 1024 \<le> r then (if x < 0 then NegInf else PosInf)
        else Fin (if x < 0 then - r else r))"

text \<open>\<^verbatim>\<open>FLOAT_EPS = 1e-6\<close>: the literal denotes the binary64 number nearest to \<open>1 / 10 ^ 6\<close>.\<close>

definition FLOAT_EPS :: pyfloat where
  "FLOAT_EPS = round_double (1 / 10 ^ 6)"

text \<open>\<^verbatim>\<open>math.isfinite\<close>.\<close>

fun isfinite :: "pyfloat \<Rightarrow> bool" where
  "isfinite (Fin r) = True"
| "isfinite f = False"

text \<open>
  The binary64 subtraction \<^verbatim>\<open>x - y\<close>. A NaN operand is passed on; the NaN that the
  difference of two equal infinities creates is never stored, and is numbered 0.
\<close>

fun fsub :: "pyfloat \<Rightarrow> pyfloat \<Rightarrow> pyfloat" where
  "fsub (Fin a) (Fin b) = round_double (a - b)"
| "fsub (NaN i) y = NaN i"
| "fsub x (NaN j) = NaN j"
| "fsub PosInf PosInf = NaN 0"
| "fsub NegInf NegInf = NaN 0"
| "fsub PosInf y = PosInf"
| "fsub NegInf y = NegInf"
| "fsub (Fin a) PosInf = NegInf"
| "fsub (Fin a) NegInf = PosInf"

text \<open>\<^verbatim>\<open>abs\<close> of a float.\<close>

fun fabs :: "pyfloat \<Rightarrow> pyfloat" where
  "fabs (Fin r) = Fin \<bar>r\<bar>"
| "fabs NegInf = PosInf"
| "fabs f = f"

text \<open>\<^verbatim>\<open>x <= y\<close> on floats: false as soon as one side is NaN.\<close>

fun fle :: "pyfloat \<Rightarrow> pyfloat \<Rightarrow> bool" where
  "fle (NaN i) y = False"
| "fle x (NaN j) = False"
| "fle NegInf y = True"
| "fle x PosInf = True"
| "fle (Fin a) (Fin b) = (a \<le> b)"
| "fle x y = False"

text \<open>\<^verbatim>\<open>x == y\<close> on floats.\<close>

fun feq :: "pyfloat \<Rightarrow> pyfloat \<Rightarrow> bool" where
  "feq (Fin a) (Fin b) = (a = b)"
| "feq PosInf PosInf = True"
| "feq NegInf NegInf = True"
| "feq x y = False"

text \<open>
  \<^verbatim>\<open>float(n)\<close> of an \<^verbatim>\<open>int\<close>: the nearest binary64 number, and \<^verbatim>\<open>OverflowError\<close> when
  that is out of range.
\<close>

definition float_of_int :: "int \<Rightarrow> error + pyfloat" where
  "float_of_int n = (case round_double (of_int n) of
       PosInf \<Rightarrow> Inl OverflowError
     | NegInf \<Rightarrow> Inl OverflowError
     | f \<Rightarrow> Inr f)"

section \<open>Python equality\<close>

text \<open>
  \<^verbatim>\<open>bool\<close>, \<^verbatim>\<open>int\<close> and \<^verbatim>\<open>float\<close> compare by their exact numeric value
  (\<^verbatim>\<open>True == 1 == 1.0\<close>; an \<^verbatim>\<open>int\<close> against a \<^verbatim>\<open>float\<close> is compared without rounding).
\<close>

fun num_val :: "pyval \<Rightarrow> pyfloat option" where
  "num_val (PBool b) = Some (Fin (if b then 1 else 0))"
| "num_val (PInt n) = Some (Fin (of_int n))"
| "num_val (PFloat f) = Some f"
| "num_val v = None"

text \<open>
  \<^verbatim>\<open>x is y\<close> where it can hold between two values that are not equal. The containers a
  comparison meets are never shared between its two operands (each toggle entry and each
  typetree element is parsed into objects of its own), and every other object equals
  itself, except a NaN.
\<close>

fun same_nan :: "pyval \<Rightarrow> pyval \<Rightarrow> bool" where
  "same_nan (PFloat (NaN i)) (PFloat (NaN j)) = (i = j)"
| "same_nan x y = False"

text \<open>
  \<^verbatim>\<open>a == b\<close>. Lists compare element by element; dictionaries have equal length and every
  key of the left one is a key of the right one with an equal value. Two elements, or two
  values of a key, are equal when they are the same object or compare equal.
\<close>

fun py_eq :: "pyval \<Rightarrow> pyval \<Rightarrow> bool" where
  "py_eq PNone b = (b = PNone)"
| "py_eq (PStr s) b = (b = PStr s)"
| "py_eq (PList xs) (PList ys) = list_all2 (\<lambda>x y. same_nan x y \<or> py_eq x y) xs ys"
| "py_eq (PList xs) b = False"
| "py_eq (PDict kvs) (PDict kws) =
     (length kvs = length kws \<and>
      list_all (\<lambda>kv. list_ex (\<lambda>kw. fst kw = fst kv
                   \<and> (same_nan (snd kv) (snd kw) \<or> py_eq (snd kv) (snd kw))) kws) kvs)"
| "py_eq (PDict kvs) b = False"
| "py_eq a b = (case num_val a of None \<Rightarrow> False
                | Some x \<Rightarrow> (case num_val b of None \<Rightarrow> False | Some y \<Rightarrow> feq x y))"

section \<open>Tolerant Equality Comparator\<close>

text \<open>\<^verbatim>\<open>isinstance(a, (int, float)) and not isinstance(a, bool)\<close>.\<close>

fun is_number :: "pyval \<Rightarrow> bool" where
  "is_number (PInt n) = True"
| "is_number (PFloat f) = True"
| "is_number v = False"

text \<open>\<^verbatim>\<open>float(a)\<close>, which \<^verbatim>\<open>equal\<close> calls on such numbers only.\<close>

fun to_float :: "pyval \<Rightarrow> error + pyfloat" where
  "to_float (PInt n) = float_of_int n"
| "to_float (PFloat f) = Inr f"
| "to_float v = Inl TypeError"

text \<open>
  \<^verbatim>\<open>equal(a, b)\<close>. The conjunction is evaluated from the left and stops at the first false
  conjunct, so \<^verbatim>\<open>float(b)\<close> is not computed when \<^verbatim>\<open>float(a)\<close> is not finite.
\<close>

definition equal_py :: "pyval \<Rightarrow> pyval \<Rightarrow> error + bool" where
  "equal_py a b =
     (if is_number a \<and> is_number b then
        (case to_float a of
           Inl e \<Rightarrow> Inl e
         | Inr fa \<Rightarrow>
            if \<not> isfinite fa then Inr False
            else (case to_float b of
                    Inl e \<Rightarrow> Inl e
                  | Inr fb \<Rightarrow>
                     if \<not> isfinite fb then Inr False
                     else Inr (fle (fabs (fsub fa fb)) FLOAT_EPS)))
      else Inr (py_eq a b))"

section \<open>Toggle Direction Resolver\<close>

text \<open>\<^verbatim>\<open>toggle_decision\<close>; the \<^verbatim>\<open>None\<close> of the last branch is the value \<open>PNone\<close>.\<close>

definition toggle_decision :: "pyval \<Rightarrow> pyval \<Rightarrow> pyval \<Rightarrow> error + (pyval \<times> string)" where
  "toggle_decision current original patched =
     (case equal_py current original of
        Inl e \<Rightarrow> Inl e
      | Inr c1 \<Rightarrow>
         if c1 then Inr (patched, ''applied'')
         else (case equal_py current patched of
                 Inl e \<Rightarrow> Inl e
               | Inr c2 \<Rightarrow>
                  if c2 then Inr (original, ''reverted'')
                  else Inr (PNone, ''unknown'')))"

section \<open>Field Mutator\<close>

text \<open>\<^verbatim>\<open>d.get(k, default)\<close> on a dictionary kept as an association list.\<close>

definition dict_get :: "pydict \<Rightarrow> string \<Rightarrow> pyval \<Rightarrow> pyval" where
  "dict_get d k dflt = (case map_of d k of None \<Rightarrow> dflt | Some v \<Rightarrow> v)"

text \<open>
  The two strings the mutator returns besides the direction are f-strings over
  \<^verbatim>\<open>repr\<close>; they are kept as the data they are formatted from:
  \<open>LogLine axis_index name field cur new\<close> stands for
  \<^verbatim>\<open>axis[{axis_index}] {name!r}.{field}: {cur!r} -> {new!r}\<close>, \<open>AxisNameOk name\<close> for
  \<^verbatim>\<open>axis_name_ok ({name!r})\<close> and \<open>AxisNameSkipped\<close> for \<^verbatim>\<open>axis_name_skipped\<close>.
\<close>

datatype log_line = LogLine int pyval string pyval pyval

datatype check = AxisNameOk pyval | AxisNameSkipped

text \<open>The truth value of \<^verbatim>\<open>axis_name\<close> (an \<^verbatim>\<open>Optional[str]\<close>): a string that is not empty.\<close>

fun name_given :: "string option \<Rightarrow> bool" where
  "name_given None = False"
| "name_given (Some s) = (s \<noteq> [])"

text \<open>The string compared with the live name, read only where \<open>name_given\<close> holds.\<close>

fun name_str :: "string option \<Rightarrow> string" where
  "name_str None = []"
| "name_str (Some s) = s"

text \<open>
  \<^verbatim>\<open>toggle_legacy_axis_field\<close>. The list \<^verbatim>\<open>axes\<close> is mutated in place by the source; the
  model returns it beside the result, unchanged on every path that raises before the
  assignment \<^verbatim>\<open>ax[field] = new\<close>. The elements of \<^verbatim>\<open>m_Axes\<close> are separate objects, so the
  assignment reaches one element only. An element that is not a dictionary has no
  \<^verbatim>\<open>get\<close>.
\<close>

definition toggle_legacy_axis_field ::
  "pyval list \<Rightarrow> int \<Rightarrow> string \<Rightarrow> pyval \<Rightarrow> pyval \<Rightarrow> string option
     \<Rightarrow> (error + (string \<times> log_line \<times> check)) \<times> pyval list" where
  "toggle_legacy_axis_field axes axis_index field original patched axis_name =
     (if axis_index < 0 \<or> int (length axes) \<le> axis_index
      then (Inl (IndexError axis_index (length axes)), axes)
      else (case axes ! nat axis_index of
        PDict ax \<Rightarrow>
          (let name = dict_get ax ''m_Name'' (PStr []) in
           if name_given axis_name \<and> \<not> py_eq name (PStr (name_str axis_name))
           then (Inl (AxisNameMismatch axis_index (name_str axis_name) name), axes)
           else (case map_of ax field of
              None \<Rightarrow> (Inl (FieldNotPresent field axis_index name), axes)
            | Some cur \<Rightarrow>
               (case toggle_decision cur original patched of
                  Inl e \<Rightarrow> (Inl e, axes)
                | Inr (new, mode) \<Rightarrow>
                   if new = PNone
                   then (Inl (UnknownState axis_index name field cur original patched), axes)
                   else (Inr (mode, LogLine axis_index name field cur new,
                              if name_given axis_name then AxisNameOk name else AxisNameSkipped),
                         axes[nat axis_index := PDict (AList.update field new ax)]))))
      | _ \<Rightarrow> (Inl AttributeError, axes)))"

section \<open>Patch Run Orchestrator\<close>

text \<open>
  Two builtins are taken as given: \<^verbatim>\<open>int\<close> on a \<^verbatim>\<open>str\<close> (the parser of integer literals,
  \<open>None\<close> where it raises \<^verbatim>\<open>ValueError\<close>) and \<^verbatim>\<open>str\<close> on a value that is not a string.
\<close>

record builtins =
  int_of_str :: "string \<Rightarrow> int option"
  str_of_val :: "pyval \<Rightarrow> string"

text \<open>\<^verbatim>\<open>int(v)\<close>: a float is truncated towards zero, a bool is 0 or 1.\<close>

fun py_int :: "builtins \<Rightarrow> pyval \<Rightarrow> error + int" where
  "py_int B (PInt n) = Inr n"
| "py_int B (PBool b) = Inr (if b then 1 else 0)"
| "py_int B (PFloat (Fin r)) = Inr (if r < 0 then - \<lfloor>- r\<rfloor> else \<lfloor>r\<rfloor>)"
| "py_int B (PFloat (NaN j)) = Inl ValueError"
| "py_int B (PFloat f) = Inl OverflowError"
| "py_int B (PStr s) = (case int_of_str B s of None \<Rightarrow> Inl ValueError | Some n \<Rightarrow> Inr n)"
| "py_int B v = Inl TypeError"

text \<open>\<^verbatim>\<open>str(v)\<close>.\<close>

fun py_str :: "builtins \<Rightarrow> pyval \<Rightarrow> string" where
  "py_str B (PStr s) = s"
| "py_str B v = str_of_val B v"

text \<open>
  The characters \<^verbatim>\<open>str.strip()\<close> removes, among the code points below 256 that a
  \<^typ>\<open>char\<close> holds.
\<close>

definition is_space :: "char \<Rightarrow> bool" where
  "is_space c = (let n = (of_char c :: nat) in
     (9 \<le> n \<and> n \<le> 13) \<or> (28 \<le> n \<and> n \<le> 32) \<or> n = 133 \<or> n = 160)"

text \<open>The truth value of \<^verbatim>\<open>s.strip()\<close>.\<close>

definition strip_nonempty :: "string \<Rightarrow> bool" where
  "strip_nonempty s = list_ex (\<lambda>c. \<not> is_space c) s"

text \<open>\<^verbatim>\<open>req\<close>.\<close>

definition req :: "pydict \<Rightarrow> string \<Rightarrow> error + pyval" where
  "req d k = (case map_of d k of None \<Rightarrow> Inl (MissingRequiredKey k) | Some v \<Rightarrow> Inr v)"

text \<open>
  \<^verbatim>\<open>axis_name = str(axis_name) if isinstance(axis_name, str) and axis_name.strip() else None\<close>,
  applied to \<^verbatim>\<open>t.get("axis_name")\<close>.
\<close>

fun axis_name_of :: "pyval \<Rightarrow> string option" where
  "axis_name_of (PStr s) = (if strip_nonempty s then Some s else None)"
| "axis_name_of v = None"

text \<open>
  The body of the loop of \<^verbatim>\<open>run\<close> up to the call of the mutator. Whatever is raised
  while \<^verbatim>\<open>int(req(t, "axis"))\<close> is evaluated, a missing key included, is replaced by the
  non-integer-axis error.
\<close>

definition run_entry ::
  "builtins \<Rightarrow> pyval list \<Rightarrow> pyval \<Rightarrow> (error + (string \<times> log_line \<times> check)) \<times> pyval list" where
  "run_entry B axes t =
     (case t of
        PDict td \<Rightarrow>
          if \<not> py_eq (dict_get td ''type'' PNone) (PStr ''legacy_axis_field'')
          then (Inl (UnsupportedToggleType (dict_get td ''type'' PNone)), axes)
          else (case (case req td ''axis'' of Inl e \<Rightarrow> Inl e | Inr v \<Rightarrow> py_int B v) of
             Inl e \<Rightarrow> (Inl (NonIntegerAxis (dict_get td ''axis'' PNone)), axes)
           | Inr axis_index \<Rightarrow>
              (case req td ''field'' of
                 Inl e \<Rightarrow> (Inl e, axes)
               | Inr fv \<Rightarrow>
                  (case req td ''original'' of
                     Inl e \<Rightarrow> (Inl e, axes)
                   | Inr original \<Rightarrow>
                      (case req td ''patched'' of
                         Inl e \<Rightarrow> (Inl e, axes)
                       | Inr patched \<Rightarrow>
                          toggle_legacy_axis_field axes axis_index (py_str B fv) original patched
                            (axis_name_of (dict_get td ''axis_name'' PNone))))))
      | _ \<Rightarrow> (Inl (BadToggleEntry t), axes))"

text \<open>
  The loop \<^verbatim>\<open>for t in toggles\<close> with its three accumulators. The list returned beside
  the result is the in-memory \<^verbatim>\<open>axes\<close> at the point where the loop ended or raised.
\<close>

fun run_toggles ::
  "builtins \<Rightarrow> pyval list \<Rightarrow> string option \<Rightarrow> check list \<Rightarrow> log_line list \<Rightarrow> pyval list
     \<Rightarrow> (error + (string option \<times> check list \<times> log_line list)) \<times> pyval list" where
  "run_toggles B axes mode_seen checks logs [] = (Inr (mode_seen, checks, logs), axes)"
| "run_toggles B axes mode_seen checks logs (t # ts) =
     (case run_entry B axes t of
        (Inl e, axes') \<Rightarrow> (Inl e, axes')
      | (Inr (mode, line, chk), axes') \<Rightarrow>
         (case mode_seen of
            None \<Rightarrow> run_toggles B axes' (Some mode) (checks @ [chk]) (logs @ [line]) ts
          | Some m \<Rightarrow>
             if m \<noteq> mode then (Inl MixedApplyRevert, axes')
             else run_toggles B axes' (Some m) (checks @ [chk]) (logs @ [line]) ts))"

text \<open>
  The file system as the run sees it: which \<^verbatim>\<open>root / x\<close> exist, the object graph that
  \<^verbatim>\<open>UnityPy.load\<close> reads from the regular file \<^verbatim>\<open>root / rel\<close> (\<open>None\<close> where there is no
  such file) and whether that file may be overwritten. An object is its class name and
  its typetree.
\<close>

record uobject =
  type_name :: string
  tree :: pydict

record world =
  exists_under :: "path \<Rightarrow> string \<Rightarrow> bool"
  files :: "path \<times> string \<Rightarrow> uobject list option"
  writable :: "path \<times> string \<Rightarrow> bool"

text \<open>\<^verbatim>\<open>Path.parent\<close>: the anchor is its own parent.\<close>

fun parent_of :: "path \<Rightarrow> path" where
  "parent_of (Path a ps) = Path a (butlast ps)"

text \<open>\<^verbatim>\<open>verify_root_contains\<close>.\<close>

definition verify_root_contains :: "world \<Rightarrow> path \<Rightarrow> string list \<Rightarrow> error + unit" where
  "verify_root_contains W rootp items =
     (let missing = filter (\<lambda>x. \<not> exists_under W rootp x) items
      in if missing \<noteq> [] then Inl (RootSanityCheckFailed rootp missing) else Inr ())"

text \<open>
  The root validation of \<^verbatim>\<open>run\<close>: the \<^verbatim>\<open>try\<close> around the first check, the retry at the
  parent in the handler, and the bare \<^verbatim>\<open>raise\<close>. The result is the root the run goes on
  with.
\<close>

definition run_root :: "builtins \<Rightarrow> world \<Rightarrow> path \<Rightarrow> pydict \<Rightarrow> error + path" where
  "run_root B W game_root patch =
     (case dict_get patch ''root_contains'' (PList []) of
        PList root_contains \<Rightarrow>
          if root_contains \<noteq> [] then
            (let items = map (py_str B) root_contains in
             case verify_root_contains W game_root items of
               Inr u \<Rightarrow> Inr game_root
             | Inl e \<Rightarrow>
                (let parent = parent_of game_root in
                 if parent \<noteq> game_root
                 then (case verify_root_contains W parent items of
                         Inl e' \<Rightarrow> Inl e'
                       | Inr u \<Rightarrow> Inr parent)
                 else Inl e))
          else Inr game_root
      | _ \<Rightarrow> Inr game_root)"

text \<open>The truth value of a value, as \<^verbatim>\<open>if root_contains:\<close> takes it.\<close>

fun py_truthy :: "pyval \<Rightarrow> bool" where
  "py_truthy PNone = False"
| "py_truthy (PBool b) = b"
| "py_truthy (PInt n) = (n \<noteq> 0)"
| "py_truthy (PFloat (Fin r)) = (r \<noteq> 0)"
| "py_truthy (PFloat f) = True"
| "py_truthy (PStr s) = (s \<noteq> [])"
| "py_truthy (PList xs) = (xs \<noteq> [])"
| "py_truthy (PDict d) = (d \<noteq> [])"

text \<open>\<^verbatim>\<open>len(v)\<close>: a number has no length.\<close>

fun py_len :: "pyval \<Rightarrow> error + nat" where
  "py_len (PStr s) = Inr (length s)"
| "py_len (PList xs) = Inr (length xs)"
| "py_len (PDict d) = Inr (length d)"
| "py_len v = Inl TypeError"

text \<open>\<^verbatim>\<open>find_obj\<close>: the position of the first object of the class.\<close>

fun find_obj :: "uobject list \<Rightarrow> string \<Rightarrow> error + nat" where
  "find_obj [] n = Inl (ObjectNotFound n)"
| "find_obj (ob # obs) n =
     (if type_name ob = n then Inr 0
      else (case find_obj obs n of Inl e \<Rightarrow> Inl e | Inr i \<Rightarrow> Inr (Suc i)))"

text \<open>
  Everything \<^verbatim>\<open>run\<close> does before the loop: root validation, the target file, the toggle
  list, the report of the root check (whose \<^verbatim>\<open>len(root_contains)\<close> raises on a number),
  loading, the \<^verbatim>\<open>InputManager\<close> object, its typetree and \<^verbatim>\<open>m_Axes\<close>.
\<close>

record prepared =
  p_root :: path
  p_rel :: string
  p_toggles :: "pyval list"
  p_objects :: "uobject list"
  p_im :: nat
  p_tree :: pydict
  p_axes :: "pyval list"

definition run_prepare :: "builtins \<Rightarrow> world \<Rightarrow> path \<Rightarrow> pydict \<Rightarrow> error + prepared" where
  "run_prepare B W game_root0 patch =
     (case run_root B W game_root0 patch of
        Inl e \<Rightarrow> Inl e
      | Inr game_root \<Rightarrow>
         (case dict_get patch ''file'' PNone of
            PStr rel \<Rightarrow>
              if \<not> strip_nonempty rel then Inl MissingFileString
              else (case files W (game_root, rel) of
                 None \<Rightarrow> Inl (TargetFileNotFound game_root rel)
               | Some objs \<Rightarrow>
                  (case dict_get patch ''toggle'' PNone of
                     PList toggles \<Rightarrow>
                       if toggles = [] then Inl MissingToggleList
                       else (case (if py_truthy (dict_get patch ''root_contains'' (PList []))
                                   then py_len (dict_get patch ''root_contains'' (PList []))
                                   else Inr 0) of
                          Inl e \<Rightarrow> Inl e
                        | Inr count \<Rightarrow>
                           (case find_obj objs ''InputManager'' of
                              Inl e \<Rightarrow> Inl e
                            | Inr i \<Rightarrow>
                               (case dict_get (tree (objs ! i)) ''m_Axes'' PNone of
                                  PList axes \<Rightarrow>
                                    Inr \<lparr>p_root = game_root, p_rel = rel, p_toggles = toggles,
                                         p_objects = objs, p_im = i, p_tree = tree (objs ! i),
                                         p_axes = axes\<rparr>
                                | _ \<Rightarrow> Inl AxesMissing)))
                   | _ \<Rightarrow> Inl MissingToggleList))
          | _ \<Rightarrow> Inl MissingFileString))"

text \<open>
  The commit: \<^verbatim>\<open>d["m_Axes"] = axes\<close>, \<^verbatim>\<open>write_tree\<close> and \<^verbatim>\<open>save_in_place\<close>, whose
  \<^verbatim>\<open>write_bytes\<close> is the only write to the disk in the program.
\<close>

definition run_commit :: "world \<Rightarrow> prepared \<Rightarrow> pyval list \<Rightarrow> error + world" where
  "run_commit W P axes =
     (let d = AList.update ''m_Axes'' (PList axes) (p_tree P);
          objs = (p_objects P)[p_im P := (p_objects P ! p_im P)\<lparr>tree := d\<rparr>]
      in if writable W (p_root P, p_rel P)
         then Inr (W\<lparr>files := (files W)((p_root P, p_rel P) \<mapsto> objs)\<rparr>)
         else Inl PermissionError)"

text \<open>
  \<^verbatim>\<open>run\<close>, from the loaded patch description on. The result is the outcome that is
  reported (mode, checks, change log) or the error that ends the run, beside the file
  system after the run.
\<close>

definition run ::
  "builtins \<Rightarrow> world \<Rightarrow> path \<Rightarrow> pydict
     \<Rightarrow> (error + (string option \<times> check list \<times> log_line list)) \<times> world" where
  "run B W game_root patch =
     (case run_prepare B W game_root patch of
        Inl e \<Rightarrow> (Inl e, W)
      | Inr P \<Rightarrow>
         (case run_toggles B (p_axes P) None [] [] (p_toggles P) of
            (Inl e, axes') \<Rightarrow> (Inl e, W)
          | (Inr out, axes') \<Rightarrow>
             (case run_commit W P axes' of
                Inl e \<Rightarrow> (Inl e, W)
              | Inr W' \<Rightarrow> (Inr out, W'))))"

section \<open>Properties of the binary64 operations\<close>

lemma powi2_pos: "0 < (2::rat) powi e"
  by (simp add: zero_less_power_int)

lemma powi2_less_iff: "(2::rat) powi a < 2 powi b \<longleftrightarrow> a < b"
proof
  assume "a < b" then show "(2::rat) powi a < 2 powi b"
    by (simp add: power_int_strict_increasing)
next
  assume h: "(2::rat) powi a < 2 powi b"
  show "a < b"
  proof (rule ccontr)
    assume "\<not> a < b"
    then have "b \<le> a" by simp
    then have "(2::rat) powi b \<le> 2 powi a" by (simp add: power_int_increasing)
    with h show False by simp
  qed
qed

lemma powi2_le_iff: "(2::rat) powi a \<le> 2 powi b \<longleftrightarrow> a \<le> b"
  using powi2_less_iff [of b a] by (simp add: not_less [symmetric])

lemma powi2_div: "(2::rat) powi a / 2 powi b = 2 powi (a - b)"
  by (simp add: power_int_diff)

lemma powi2_mult: "(2::rat) powi a * 2 powi b = 2 powi (a + b)"
  by (simp add: power_int_add)

lemma powi2_nonpos: "q \<le> 0 \<Longrightarrow> (2::rat) powi q = inverse (2 ^ nat (- q))"
  by (cases "q = 0") (simp_all add: power_int_def power_one_over inverse_eq_divide)

lemma powi2_diff_nat: "(2::rat) ^ a / 2 ^ b = 2 powi (int a - int b)"
  by (simp add: power_int_diff)

lemma ilog2_bounds:
  assumes "0 < y"
  shows "2 powi ilog2 y \<le> y \<and> y < 2 powi (ilog2 y + 1)"
proof -
  obtain p q where pq: "quotient_of y = (p, q)" by (cases "quotient_of y")
  have q: "0 < q" using pq by (rule quotient_of_denom_pos)
  have y: "y = of_int p / of_int q" using pq by (rule quotient_of_div)
  have p: "0 < p" using assms q y by (simp add: zero_less_divide_iff)
  define bp where "bp = floorlog 2 (nat p)"
  define bq where "bq = floorlog 2 (nat q)"
  have bp1: "2 ^ (bp - 1) \<le> nat p" and bp2: "nat p < 2 ^ bp"
    using floorlog_bounds [of "nat p" 2] p by (simp_all add: bp_def)
  have bq1: "2 ^ (bq - 1) \<le> nat q" and bq2: "nat q < 2 ^ bq"
    using floorlog_bounds [of "nat q" 2] q by (simp_all add: bq_def)
  have bp0: "0 < bp" using p by (simp add: bp_def floorlog_def)
  have bq0: "0 < bq" using q by (simp add: bq_def floorlog_def)
  have P1: "(2::rat) ^ (bp - 1) \<le> of_int p"
  proof -
    have "(of_nat (2 ^ (bp - 1)) :: rat) \<le> of_nat (nat p)" using bp1 by (simp only: of_nat_le_iff)
    then show ?thesis using p by simp
  qed
  have P2: "of_int p < (2::rat) ^ bp"
  proof -
    have "(of_nat (nat p) :: rat) < of_nat (2 ^ bp)" using bp2 by (simp only: of_nat_less_iff)
    then show ?thesis using p by simp
  qed
  have Q1: "(2::rat) ^ (bq - 1) \<le> of_int q"
  proof -
    have "(of_nat (2 ^ (bq - 1)) :: rat) \<le> of_nat (nat q)" using bq1 by (simp only: of_nat_le_iff)
    then show ?thesis using q by simp
  qed
  have Q2: "of_int q < (2::rat) ^ bq"
  proof -
    have "(of_nat (nat q) :: rat) < of_nat (2 ^ bq)" using bq2 by (simp only: of_nat_less_iff)
    then show ?thesis using q by simp
  qed
  define e0 where "e0 = int bp - int bq"
  have qpos: "(0::rat) < of_int q" using q by simp
  have up: "y < 2 powi (e0 + 1)"
  proof -
    have "y < 2 ^ bp / of_int q" unfolding y using P2 qpos by (simp add: divide_strict_right_mono)
    also have "\<dots> \<le> 2 ^ bp / 2 ^ (bq - 1)"
      using Q1 qpos by (intro divide_left_mono) simp_all
    also have "\<dots> = 2 powi (int bp - int (bq - 1))" by (rule powi2_diff_nat)
    also have "int bp - int (bq - 1) = e0 + 1" using bq0 by (simp add: e0_def)
    finally show ?thesis .
  qed
  have lo: "2 powi (e0 - 1) \<le> y"
  proof -
    have "e0 - 1 = int (bp - 1) - int bq" using bp0 by (simp add: e0_def)
    then have "(2::rat) powi (e0 - 1) = 2 powi (int (bp - 1) - int bq)" by simp
    also have "\<dots> = 2 ^ (bp - 1) / 2 ^ bq" by (rule powi2_diff_nat [symmetric])
    also have "\<dots> \<le> of_int p / 2 ^ bq" using P1 by (simp add: divide_right_mono)
    also have "\<dots> \<le> of_int p / of_int q"
      using Q2 qpos p by (intro divide_left_mono) simp_all
    finally show ?thesis by (simp add: y)
  qed
  have il: "ilog2 y = (if 2 powi e0 \<le> y then e0 else e0 - 1)"
    by (simp add: ilog2_def pq Let_def e0_def bp_def bq_def)
  show ?thesis
  proof (cases "2 powi e0 \<le> y")
    case True
    then show ?thesis using up by (simp add: il)
  next
    case False
    then show ?thesis using lo by (simp add: il)
  qed
qed

lemma ilog2_unique:
  assumes "2 powi e \<le> y" and "y < 2 powi (e + 1)"
  shows "ilog2 y = e"
proof -
  have y: "0 < y" using assms(1) powi2_pos [of e] by (rule less_le_trans [rotated])
  from ilog2_bounds [OF y] have b1: "2 powi ilog2 y \<le> y" and b2: "y < 2 powi (ilog2 y + 1)"
    by simp_all
  have "(2::rat) powi ilog2 y < 2 powi (e + 1)" using b1 assms(2) by simp
  then have 1: "ilog2 y < e + 1" by (simp only: powi2_less_iff)
  have "(2::rat) powi e < 2 powi (ilog2 y + 1)" using b2 assms(1) by simp
  then have 2: "e < ilog2 y + 1" by (simp only: powi2_less_iff)
  from 1 2 show ?thesis by simp
qed


lemma rhe_floor_le: "\<lfloor>m\<rfloor> \<le> round_half_even m"
  by (simp add: round_half_even_def Let_def)

lemma rhe_le_floor1: "round_half_even m \<le> \<lfloor>m\<rfloor> + 1"
  by (simp add: round_half_even_def Let_def)

lemma rhe_of_int: "round_half_even (of_int n) = n"
  by (simp add: round_half_even_def Let_def)

lemma rhe_upper: "of_int (round_half_even m) \<le> m + 1 / 2"
proof -
  have 1: "of_int \<lfloor>m\<rfloor> \<le> m" by simp
  have 2: "of_int (\<lfloor>m\<rfloor> + 1) = of_int \<lfloor>m\<rfloor> + (1::rat)" by simp
  show ?thesis unfolding round_half_even_def Let_def
    using 1 by (simp only: 2 split: if_split) linarith
qed

lemma rhe_lower: "m - 1 / 2 \<le> of_int (round_half_even m)"
proof -
  have 1: "m < of_int \<lfloor>m\<rfloor> + 1" by linarith
  have 2: "of_int (\<lfloor>m\<rfloor> + 1) = of_int \<lfloor>m\<rfloor> + (1::rat)" by simp
  show ?thesis unfolding round_half_even_def Let_def
    using 1 by (simp only: 2 split: if_split) linarith
qed

lemma rhe_below: 
  assumes "m < of_int n + 1 / 2"
  shows "round_half_even m \<le> n"
proof (cases "\<lfloor>m\<rfloor> < n")
  case True
  then show ?thesis using rhe_le_floor1 [of m] by simp
next
  case False
  have "\<lfloor>m\<rfloor> \<le> n" using assms by (simp add: floor_le_iff)
  with False have f: "\<lfloor>m\<rfloor> = n" by simp
  then show ?thesis using assms by (simp add: round_half_even_def Let_def)
qed

lemma rhe_above:
  assumes "of_int n - 1 / 2 < m"
  shows "n \<le> round_half_even m"
proof (cases "n \<le> \<lfloor>m\<rfloor>")
  case True
  then show ?thesis using rhe_floor_le [of m] by simp
next
  case False
  have "of_int (n - 1) \<le> m" using assms by simp
  then have "n - 1 \<le> \<lfloor>m\<rfloor>" by (simp only: le_floor_iff)
  with False have f: "\<lfloor>m\<rfloor> = n - 1" by simp
  then show ?thesis using assms by (simp add: round_half_even_def Let_def)
qed

lemma rhe_tie_odd:
  assumes "odd n" and "of_int n + 1 / 2 \<le> m"
  shows "n + 1 \<le> round_half_even m"
proof (cases "n + 1 \<le> \<lfloor>m\<rfloor>")
  case True
  then show ?thesis using rhe_floor_le [of m] by simp
next
  case False
  have "of_int n \<le> m" using assms(2) by simp
  then have "n \<le> \<lfloor>m\<rfloor>" by (simp only: le_floor_iff)
  with False have f: "\<lfloor>m\<rfloor> = n" by simp
  then show ?thesis using assms by (simp add: round_half_even_def Let_def)
qed

lemma rhe_ge_int:
  assumes "of_int n \<le> m"
  shows "n \<le> round_half_even m"
  using assms rhe_floor_le [of m] le_floor_iff [of n m] by simp


lemma rhe_near:
  assumes "of_int n - 1 / 2 < m" and "m < of_int n + 1 / 2"
  shows "round_half_even m = n"
  using rhe_above [OF assms(1)] rhe_below [OF assms(2)] by simp

lemma round_double_binade:
  assumes "2 powi e \<le> \<bar>x\<bar>" and "\<bar>x\<bar> < 2 powi (e + 1)"
    and "q = max e (- 1022) - 52"
    and "r = of_int (round_half_even (\<bar>x\<bar> / 2 powi q)) * 2 powi q"
  shows "round_double x =
     (if (2::rat) ^ 1024 \<le> r then (if x < 0 then NegInf else PosInf)
      else Fin (if x < 0 then - r else r))"
proof -
  have "0 < \<bar>x\<bar>" using assms(1) powi2_pos [of e] by (rule less_le_trans [rotated])
  then have "x \<noteq> 0" by simp
  then show ?thesis
    by (simp only: round_double_def ilog2_unique [OF assms(1,2)] Let_def if_False assms(3,4))
qed

lemma FLOAT_EPS_val: "FLOAT_EPS = Fin (4722366482869645 / 2 ^ 72)"
proof -
  have b1: "2 powi (- 20) \<le> \<bar>1 / 10 ^ 6 :: rat\<bar>" by simp
  have b2: "\<bar>1 / 10 ^ 6 :: rat\<bar> < 2 powi (- 20 + 1)" by simp
  have q: "(- 72 :: int) = max (- 20) (- 1022) - 52" by simp
  have k: "round_half_even (\<bar>1 / 10 ^ 6 :: rat\<bar> / 2 powi (- 72)) = 4722366482869645"
    by (rule rhe_near) simp_all
  have r: "(4722366482869645 / 2 ^ 72 :: rat) = 
     of_int (round_half_even (\<bar>1 / 10 ^ 6 :: rat\<bar> / 2 powi (- 72))) * 2 powi (- 72)"
    unfolding k by simp
  show ?thesis
    unfolding FLOAT_EPS_def round_double_binade [OF b1 b2 q r] by simp
qed


lemma fle_fabs_round:
  assumes "2 powi e \<le> \<bar>x\<bar>" and "\<bar>x\<bar> < 2 powi (e + 1)"
    and "q = max e (- 1022) - 52"
    and "r = of_int (round_half_even (\<bar>x\<bar> / 2 powi q)) * 2 powi q"
    and "d < 2 ^ 1024"
  shows "fle (fabs (round_double x)) (Fin d) \<longleftrightarrow> r \<le> d"
proof -
  have "(of_int 0 :: rat) \<le> \<bar>x\<bar> / 2 powi q" using powi2_pos [of q] by simp
  then have "0 \<le> round_half_even (\<bar>x\<bar> / 2 powi q)" by (rule rhe_ge_int)
  then have r0: "0 \<le> r" using powi2_pos [of q] by (simp add: assms(4))
  show ?thesis
    unfolding round_double_binade [OF assms(1-4)] using r0 assms(5) by auto
qed

lemma round_le_eps:
  "fle (fabs (round_double x)) FLOAT_EPS \<longleftrightarrow> \<bar>x\<bar> < 9444732965739291 / 2 ^ 73"
proof (cases "x = 0")
  case True
  then show ?thesis by (simp add: round_double_def FLOAT_EPS_val)
next
  case False
  define y where "y = \<bar>x\<bar>"
  define e where "e = ilog2 y"
  define q where "q = max e (- 1022) - 52"
  define k where "k = round_half_even (y / 2 powi q)"
  define r :: rat where "r = of_int k * 2 powi q"
  have y0: "0 < y" using False by (simp add: y_def)
  have b1: "2 powi e \<le> \<bar>x\<bar>" and b2: "\<bar>x\<bar> < 2 powi (e + 1)"
    using ilog2_bounds [OF y0] by (simp_all add: e_def y_def)
  have r': "r = of_int (round_half_even (\<bar>x\<bar> / 2 powi q)) * 2 powi q"
    by (simp add: r_def k_def y_def)
  have d: "(4722366482869645 / 2 ^ 72 :: rat) < 2 ^ 1024" by simp
  have main: "fle (fabs (round_double x)) FLOAT_EPS \<longleftrightarrow> r \<le> 4722366482869645 / 2 ^ 72"
    unfolding FLOAT_EPS_val by (rule fle_fabs_round [OF b1 b2 q_def r' d])
  have qpos: "0 < (2::rat) powi q" by (rule powi2_pos)
  have ry: "r = of_int k * 2 powi q" by (rule r_def)
  have ym: "y = (y / 2 powi q) * 2 powi q" using qpos by simp
  consider (lo) "e \<le> - 21" | (mid) "e = - 20" | (hi) "- 19 \<le> e" by linarith
  then have "r \<le> 4722366482869645 / 2 ^ 72 \<longleftrightarrow> y < 9444732965739291 / 2 ^ 73"
  proof cases
    case lo
    have "e + 1 \<le> - 20" using lo by simp
    then have "(2::rat) powi (e + 1) \<le> 2 powi (- 20)" by (simp only: powi2_le_iff)
    then have y20: "y < 2 powi (- 20)" using b2 by (simp add: y_def)
    have "q \<le> - 73" using lo by (simp add: q_def)
    then have q73: "(2::rat) powi q \<le> 2 powi (- 73)" by (simp only: powi2_le_iff)
    have "of_int k \<le> y / 2 powi q + 1 / 2" unfolding k_def by (rule rhe_upper)
    then have "of_int k * 2 powi q \<le> (y / 2 powi q + 1 / 2) * 2 powi q"
      using qpos by (simp only: mult_le_cancel_right_pos)
    also have "\<dots> = y + 2 powi q / 2" using qpos by (simp add: algebra_simps)
    finally have "r \<le> y + 2 powi q / 2" by (simp add: r_def)
    then have "r \<le> 2 powi (- 20) + 2 powi (- 73) / 2" using y20 q73 by linarith
    then have 1: "r \<le> 4722366482869645 / 2 ^ 72" by simp
    have 2: "y < 9444732965739291 / 2 ^ 73" using y20 by simp
    from 1 2 show ?thesis by simp
  next
    case mid
    have q: "q = - 72" using mid by (simp add: q_def)
    have odd: "odd (4722366482869645 :: int)" by simp
    show ?thesis
    proof
      assume "r \<le> 4722366482869645 / 2 ^ 72"
      then have "of_int k \<le> (4722366482869645 :: rat)" by (simp add: r_def q)
      then have kN: "k \<le> 4722366482869645" by linarith
      show "y < 9444732965739291 / 2 ^ 73"
      proof (rule ccontr)
        assume "\<not> y < 9444732965739291 / 2 ^ 73"
        then have "of_int 4722366482869645 + 1 / 2 \<le> y / 2 powi q" by (simp add: q)
        from rhe_tie_odd [OF odd this] have "4722366482869645 + 1 \<le> k" by (simp add: k_def)
        with kN show False by simp
      qed
    next
      assume "y < 9444732965739291 / 2 ^ 73"
      then have "y / 2 powi q < of_int 4722366482869645 + 1 / 2" by (simp add: q)
      from rhe_below [OF this] have "k \<le> 4722366482869645" by (simp add: k_def)
      then have "(of_int k :: rat) \<le> 4722366482869645" by linarith
      then show "r \<le> 4722366482869645 / 2 ^ 72" by (simp add: r_def q)
    qed
  next
    case hi
    then have "(2::rat) powi (- 19) \<le> 2 powi e" by (simp only: powi2_le_iff)
    then have y19: "2 powi (- 19) \<le> y" using b1 by (simp add: y_def)
    have q: "q = e - 52" using hi by (simp add: q_def)
    have "(2::rat) powi e / 2 powi q \<le> y / 2 powi q"
      using b1 qpos by (simp add: y_def divide_right_mono)
    moreover have "(2::rat) powi e / 2 powi q = of_int (2 ^ 52)"
      by (simp add: q power_int_diff)
    ultimately have "of_int (2 ^ 52) \<le> y / 2 powi q" by simp
    then have "2 ^ 52 \<le> k" unfolding k_def by (rule rhe_ge_int)
    then have "(of_int (2 ^ 52) :: rat) \<le> of_int k" by (simp only: of_int_le_iff)
    then have "of_int (2 ^ 52) * 2 powi q \<le> r" using qpos by (simp add: r_def)
    moreover have "of_int (2 ^ 52) * (2::rat) powi q = 2 powi e"
      by (simp add: q power_int_diff)
    ultimately have "2 powi e \<le> r" by simp
    with \<open>(2::rat) powi (- 19) \<le> 2 powi e\<close> have "2 powi (- 19) \<le> r" by simp
    then have 1: "\<not> r \<le> 4722366482869645 / 2 ^ 72" by simp
    have 2: "\<not> y < 9444732965739291 / 2 ^ 73" using y19 by simp
    from 1 2 show ?thesis by simp
  qed
  with main show ?thesis by (simp add: y_def)
qed


lemma round_double_int_exact:
  assumes "\<bar>n\<bar> \<le> 2 ^ 53"
  shows "round_double (of_int n) = Fin (of_int n)"
proof (cases "n = 0")
  case True
  then show ?thesis by (simp add: round_double_def)
next
  case False
  define y :: rat where "y = \<bar>of_int n\<bar>"
  define e where "e = ilog2 y"
  define q where "q = max e (- 1022) - 52"
  define r :: rat where "r = of_int (round_half_even (y / 2 powi q)) * 2 powi q"
  have y1: "1 \<le> y" using False by (simp add: y_def)
  have y53: "y \<le> 2 ^ 53"
  proof -
    have "(of_int \<bar>n\<bar> :: rat) \<le> of_int (2 ^ 53)" using assms by (simp only: of_int_le_iff)
    then show ?thesis by (simp add: y_def)
  qed
  have y0: "0 < y" using y1 by simp
  have b1: "2 powi e \<le> y" and b2: "y < 2 powi (e + 1)"
    using ilog2_bounds [OF y0] by (simp_all add: e_def)
  have "(2::rat) powi 0 < 2 powi (e + 1)" using y1 b2 by simp
  then have "0 < e + 1" by (simp only: powi2_less_iff)
  then have e0: "0 \<le> e" by simp
  have "(2::rat) powi e \<le> 2 powi 53" using b1 y53 by simp
  then have e53: "e \<le> 53" by (simp only: powi2_le_iff)
  have q: "q = e - 52" using e0 by (simp add: q_def)
  have qpos: "0 < (2::rat) powi q" by (rule powi2_pos)
  have ry: "r = y"
  proof (cases "e = 53")
    case True
    have "y = 2 ^ 53" using b1 y53 True by simp
    then show ?thesis using rhe_of_int [of "2 ^ 52"] by (simp add: r_def q True)
  next
    case False
    with e53 have "q \<le> 0" by (simp add: q)
    then have "(2::rat) powi q = inverse (2 ^ nat (- q))"
      by (rule powi2_nonpos)
    then have "y / 2 powi q = of_int (\<bar>n\<bar> * 2 ^ nat (- q))"
      by (simp add: y_def divide_inverse)
    then have "round_half_even (y / 2 powi q) = \<bar>n\<bar> * 2 ^ nat (- q)"
      by (simp only: rhe_of_int)
    then have "r = of_int (\<bar>n\<bar> * 2 ^ nat (- q)) * 2 powi q" by (simp add: r_def)
    also have "\<dots> = y * (2 ^ nat (- q) * 2 powi q)" by (simp add: y_def)
    also have "(2::rat) ^ nat (- q) * 2 powi q = 1"
      using \<open>(2::rat) powi q = inverse (2 ^ nat (- q))\<close> by simp
    finally show ?thesis by simp
  qed
  have r': "r = of_int (round_half_even (\<bar>of_int n\<bar> / 2 powi q)) * 2 powi q"
    by (simp add: r_def y_def)
  have small: "\<not> (2::rat) ^ 1024 \<le> r" using y53 by (simp add: ry)
  have sgn: "(if (of_int n :: rat) < 0 then - r else r) = of_int n" by (simp add: ry y_def)
  show ?thesis
    using round_double_binade [OF b1 [unfolded y_def] b2 [unfolded y_def] q_def r']
    by (simp only: small sgn if_False)
qed

lemma float_of_int_exact: "\<bar>n\<bar> \<le> 2 ^ 53 \<Longrightarrow> float_of_int n = Inr (Fin (of_int n))"
  by (simp add: float_of_int_def round_double_int_exact)

lemma float_of_int_overflow_iff:
  "float_of_int n = Inl OverflowError \<longleftrightarrow> 2 ^ 1024 - 2 ^ 970 \<le> \<bar>n\<bar>"
proof (cases "n = 0")
  case True
  then show ?thesis by (simp add: float_of_int_def round_double_def)
next
  case False
  define y :: rat where "y = \<bar>of_int n\<bar>"
  define e where "e = ilog2 y"
  define q where "q = max e (- 1022) - 52"
  define k where "k = round_half_even (y / 2 powi q)"
  define r :: rat where "r = of_int k * 2 powi q"
  have y1: "1 \<le> y" using False by (simp add: y_def)
  have y0: "0 < y" using y1 by simp
  have b1: "2 powi e \<le> y" and b2: "y < 2 powi (e + 1)"
    using ilog2_bounds [OF y0] by (simp_all add: e_def)
  have "(2::rat) powi 0 < 2 powi (e + 1)" using y1 b2 by simp
  then have "0 < e + 1" by (simp only: powi2_less_iff)
  then have e0: "0 \<le> e" by simp
  have q: "q = e - 52" using e0 by (simp add: q_def)
  have qpos: "0 < (2::rat) powi q" by (rule powi2_pos)
  have r': "r = of_int (round_half_even (\<bar>of_int n\<bar> / 2 powi q)) * 2 powi q"
    by (simp add: r_def k_def y_def)
  have rd: "round_double (of_int n) =
     (if (2::rat) ^ 1024 \<le> r then (if (of_int n :: rat) < 0 then NegInf else PosInf)
      else Fin (if (of_int n :: rat) < 0 then - r else r))"
    by (rule round_double_binade [OF b1 [unfolded y_def] b2 [unfolded y_def] q_def r'])
  have ov: "float_of_int n = Inl OverflowError \<longleftrightarrow> 2 ^ 1024 \<le> r"
    by (simp add: float_of_int_def rd)
  have yn: "y = of_int \<bar>n\<bar>" by (simp add: y_def)
  have thr: "2 ^ 1024 - 2 ^ 970 \<le> \<bar>n\<bar> \<longleftrightarrow> (2 ^ 1024 - 2 ^ 970 :: rat) \<le> y"
  proof -
    have "(2 ^ 1024 - 2 ^ 970 :: rat) = of_int (2 ^ 1024 - 2 ^ 970)" by simp
    then show ?thesis unfolding yn by (simp only: of_int_le_iff)
  qed
  consider (lo) "e \<le> 1022" | (mid) "e = 1023" | (hi) "1024 \<le> e" by linarith
  then have "2 ^ 1024 \<le> r \<longleftrightarrow> (2 ^ 1024 - 2 ^ 970 :: rat) \<le> y"
  proof cases
    case lo
    have "e + 1 \<le> 1023" using lo by simp
    then have le: "(2::rat) powi (e + 1) \<le> 2 powi 1023" by (simp only: powi2_le_iff)
    then have y2: "y < 2 powi 1023" using b2 by simp
    have "y / 2 powi q < 2 powi (e + 1) / 2 powi q"
      using b2 qpos by (simp add: divide_strict_right_mono)
    also have "(2::rat) powi (e + 1) / 2 powi q = of_int (2 ^ 53)"
      unfolding powi2_div q by simp
    finally have "y / 2 powi q < of_int (2 ^ 53)" .
    then have "y / 2 powi q < of_int (2 ^ 53) + 1 / 2" by linarith
    from rhe_below [OF this] have "k \<le> 2 ^ 53" by (simp add: k_def)
    then have "(of_int k :: rat) \<le> of_int (2 ^ 53)" by (simp only: of_int_le_iff)
    then have "r \<le> of_int (2 ^ 53) * 2 powi q" using qpos by (simp add: r_def)
    also have "of_int (2 ^ 53) * (2::rat) powi q = 2 powi (e + 1)"
    proof -
      have "53 + q = e + 1" by (simp add: q)
      then have "(2::rat) powi 53 * 2 powi q = 2 powi (e + 1)" by (simp only: powi2_mult)
      then show ?thesis by simp
    qed
    finally have "r \<le> 2 powi 1023" using le by simp
    then have 1: "\<not> 2 ^ 1024 \<le> r" by simp
    have 2: "\<not> (2 ^ 1024 - 2 ^ 970 :: rat) \<le> y" using y2 by simp
    from 1 2 show ?thesis by simp
  next
    case mid
    have q': "q = 971" using mid by (simp add: q)
    have odd: "odd (2 ^ 53 - 1 :: int)" by simp
    show ?thesis
    proof
      assume "2 ^ 1024 \<le> r"
      then have "(of_int (2 ^ 53) :: rat) \<le> of_int k" by (simp add: r_def q')
      then have kN: "2 ^ 53 \<le> k" by (simp only: of_int_le_iff)
      show "(2 ^ 1024 - 2 ^ 970 :: rat) \<le> y"
      proof (rule ccontr)
        assume "\<not> (2 ^ 1024 - 2 ^ 970 :: rat) \<le> y"
        then have "y / 2 powi q < of_int (2 ^ 53 - 1) + 1 / 2" by (simp add: q')
        from rhe_below [OF this] have "k \<le> 2 ^ 53 - 1" by (simp add: k_def)
        with kN show False by simp
      qed
    next
      assume "(2 ^ 1024 - 2 ^ 970 :: rat) \<le> y"
      then have "of_int (2 ^ 53 - 1) + 1 / 2 \<le> y / 2 powi q" by (simp add: q')
      from rhe_tie_odd [OF odd this] have "2 ^ 53 \<le> k" by (simp add: k_def)
      then have "(of_int (2 ^ 53) :: rat) \<le> of_int k" by (simp only: of_int_le_iff)
      then show "2 ^ 1024 \<le> r" by (simp add: r_def q')
    qed
  next
    case hi
    then have le: "(2::rat) powi 1024 \<le> 2 powi e" by (simp only: powi2_le_iff)
    have "(2::rat) powi e / 2 powi q \<le> y / 2 powi q"
      using b1 qpos by (simp add: divide_right_mono)
    moreover have "(2::rat) powi e / 2 powi q = of_int (2 ^ 52)"
      by (simp add: q power_int_diff)
    ultimately have "of_int (2 ^ 52) \<le> y / 2 powi q" by simp
    then have "2 ^ 52 \<le> k" unfolding k_def by (rule rhe_ge_int)
    then have "(of_int (2 ^ 52) :: rat) \<le> of_int k" by (simp only: of_int_le_iff)
    then have "of_int (2 ^ 52) * 2 powi q \<le> r" using qpos by (simp add: r_def)
    moreover have "of_int (2 ^ 52) * (2::rat) powi q = 2 powi e"
      by (simp add: q power_int_diff)
    ultimately have "2 powi e \<le> r" by simp
    with le have 1: "2 ^ 1024 \<le> r" by simp
    have 2: "(2 ^ 1024 - 2 ^ 970 :: rat) \<le> y" using b1 le by simp
    from 1 2 show ?thesis by simp
  qed
  with ov thr show ?thesis by simp
qed

section \<open>Properties of the comparator\<close>

lemma to_float_number: "to_float a = Inr f \<Longrightarrow> is_number a"
  by (cases a) simp_all

lemma equal_py_finite:
  assumes "to_float a = Inr (Fin x)" and "to_float b = Inr (Fin y)"
  shows "equal_py a b = Inr (\<bar>x - y\<bar> < 9444732965739291 / 2 ^ 73)"
  using assms to_float_number [OF assms(1)] to_float_number [OF assms(2)]
  by (simp add: equal_py_def round_le_eps)

lemma equal_py_nonfinite_left:
  assumes "to_float a = Inr fa" and "\<not> isfinite fa" and "is_number b"
  shows "equal_py a b = Inr False"
  using assms to_float_number [OF assms(1)] by (simp add: equal_py_def)

lemma equal_py_nonfinite_right:
  assumes "to_float a = Inr (Fin x)" and "to_float b = Inr fb" and "\<not> isfinite fb"
  shows "equal_py a b = Inr False"
  using assms to_float_number [OF assms(1)] to_float_number [OF assms(2)]
  by (simp add: equal_py_def)

lemma equal_py_raise_left:
  assumes "is_number a" and "is_number b" and "to_float a = Inl e"
  shows "equal_py a b = Inl e"
  using assms by (simp add: equal_py_def)

lemma equal_py_raise_right:
  assumes "to_float a = Inr (Fin x)" and "is_number b" and "to_float b = Inl e"
  shows "equal_py a b = Inl e"
  using assms to_float_number [OF assms(1)] by (simp add: equal_py_def)

lemma equal_py_other: "\<not> (is_number a \<and> is_number b) \<Longrightarrow> equal_py a b = Inr (py_eq a b)"
  by (auto simp add: equal_py_def)

lemma equal_py_floats:
  "equal_py (PFloat (Fin x)) (PFloat (Fin y)) = Inr (\<bar>x - y\<bar> < 9444732965739291 / 2 ^ 73)"
  by (rule equal_py_finite) simp_all

lemma rhe_tie_even:
  assumes "even n"
  shows "round_half_even (of_int n + 1 / 2) = n"
proof -
  have f: "\<lfloor>of_int n + 1 / 2 :: rat\<rfloor> = n" by (simp add: floor_eq_iff)
  show ?thesis using assms by (simp add: round_half_even_def Let_def f)
qed

lemma float_of_int_2p53_1: "float_of_int 9007199254740993 = Inr (Fin 9007199254740992)"
proof -
  have b1: "2 powi 53 \<le> \<bar>of_int 9007199254740993 :: rat\<bar>" by simp
  have b2: "\<bar>of_int 9007199254740993 :: rat\<bar> < 2 powi (53 + 1)" by simp
  have q: "(1::int) = max 53 (- 1022) - 52" by simp
  have e: "\<bar>of_int 9007199254740993 :: rat\<bar> / 2 powi 1 = of_int 4503599627370496 + 1 / 2"
    by simp
  have k: "round_half_even (\<bar>of_int 9007199254740993 :: rat\<bar> / 2 powi 1) = 4503599627370496"
    unfolding e by (rule rhe_tie_even) simp
  have r: "(9007199254740992 :: rat) =
      of_int (round_half_even (\<bar>of_int 9007199254740993 :: rat\<bar> / 2 powi 1)) * 2 powi 1"
    unfolding k by simp
  show ?thesis
    unfolding float_of_int_def round_double_binade [OF b1 b2 q r] by simp
qed

lemma equal_py_small_ints:
  assumes "\<bar>m\<bar> \<le> 2 ^ 53" and "\<bar>n\<bar> \<le> 2 ^ 53"
  shows "equal_py (PInt m) (PInt n) = Inr (m = n)"
proof -
  have a: "to_float (PInt m) = Inr (Fin (of_int m))" using assms(1) by (simp add: float_of_int_exact)
  have b: "to_float (PInt n) = Inr (Fin (of_int n))" using assms(2) by (simp add: float_of_int_exact)
  have "\<bar>of_int m - of_int n :: rat\<bar> = of_int \<bar>m - n\<bar>" by simp
  moreover have "(of_int \<bar>m - n\<bar> :: rat) < 9444732965739291 / 2 ^ 73 \<longleftrightarrow> m = n"
  proof
    assume h: "(of_int \<bar>m - n\<bar> :: rat) < 9444732965739291 / 2 ^ 73"
    have "(9444732965739291 / 2 ^ 73 :: rat) < of_int 1" by simp
    with h have "(of_int \<bar>m - n\<bar> :: rat) < of_int 1" by (rule less_trans)
    then have "\<bar>m - n\<bar> < 1" by (simp only: of_int_less_iff)
    then show "m = n" by simp
  next
    assume "m = n" then show "(of_int \<bar>m - n\<bar> :: rat) < 9444732965739291 / 2 ^ 73" by simp
  qed
  ultimately show ?thesis unfolding equal_py_finite [OF a b] by simp
qed

lemma equal_py_int_float:
  assumes "\<bar>m\<bar> \<le> 2 ^ 53"
  shows "equal_py (PInt m) (PFloat (Fin y)) = Inr (\<bar>of_int m - y\<bar> < 9444732965739291 / 2 ^ 73)"
    and "equal_py (PFloat (Fin y)) (PInt m) = Inr (\<bar>y - of_int m\<bar> < 9444732965739291 / 2 ^ 73)"
proof -
  have a: "to_float (PInt m) = Inr (Fin (of_int m))" using assms by (simp add: float_of_int_exact)
  have b: "to_float (PFloat (Fin y)) = Inr (Fin y)" by simp
  show "equal_py (PInt m) (PFloat (Fin y)) = Inr (\<bar>of_int m - y\<bar> < 9444732965739291 / 2 ^ 73)"
    by (rule equal_py_finite [OF a b])
  show "equal_py (PFloat (Fin y)) (PInt m) = Inr (\<bar>y - of_int m\<bar> < 9444732965739291 / 2 ^ 73)"
    by (rule equal_py_finite [OF b a])
qed

lemma to_float_int_overflow:
  "to_float (PInt n) = Inl OverflowError \<longleftrightarrow> 2 ^ 1024 - 2 ^ 970 \<le> \<bar>n\<bar>"
  by (simp add: float_of_int_overflow_iff)

section \<open>Claim about the comparator\<close>

text \<open>
  Claim C2. For two numbers that are not booleans, \<^verbatim>\<open>equal\<close> works on their binary64
  conversions: it returns true exactly when both conversions are finite and their exact
  difference is below \<open>1e-6 + 2 powi - 73\<close>, where \<open>1e-6\<close> is the binary64 number
  \<open>4722366482869645 / 2 ^ 72\<close> (the difference then rounds to a binary64 number that is at
  most \<open>1e-6\<close>); a conversion that is not finite makes it return false. A \<^verbatim>\<open>float\<close>
  converts to itself, an \<^verbatim>\<open>int\<close> of magnitude at most \<open>2 ^ 53\<close> to itself, and an \<^verbatim>\<open>int\<close>
  of magnitude \<open>2 ^ 1024 - 2 ^ 970\<close> or more has no conversion: \<^verbatim>\<open>equal\<close> then raises
  \<^verbatim>\<open>OverflowError\<close>, unless the left operand already decided the comparison. For every
  other pair of values \<^verbatim>\<open>equal(a, b)\<close> is \<^verbatim>\<open>a == b\<close>.
\<close>

theorem equal_py_characterisation:
  "(to_float a = Inr (Fin x) \<and> to_float b = Inr (Fin y)
      \<longrightarrow> equal_py a b = Inr (\<bar>x - y\<bar> < 9444732965739291 / 2 ^ 73))
   \<and> (is_number a \<and> is_number b \<and> to_float a = Inr fa \<and> \<not> isfinite fa
      \<longrightarrow> equal_py a b = Inr False)
   \<and> (to_float a = Inr (Fin x) \<and> to_float b = Inr fb \<and> \<not> isfinite fb
      \<longrightarrow> equal_py a b = Inr False)
   \<and> (is_number a \<and> is_number b \<and> to_float a = Inl e \<longrightarrow> equal_py a b = Inl e)
   \<and> (to_float a = Inr (Fin x) \<and> is_number b \<and> to_float b = Inl e \<longrightarrow> equal_py a b = Inl e)
   \<and> (\<not> (is_number a \<and> is_number b) \<longrightarrow> equal_py a b = Inr (py_eq a b))
   \<and> to_float (PFloat f) = Inr f
   \<and> (\<bar>n\<bar> \<le> 2 ^ 53 \<longrightarrow> to_float (PInt n) = Inr (Fin (of_int n)))
   \<and> (to_float (PInt n) = Inl OverflowError \<longleftrightarrow> 2 ^ 1024 - 2 ^ 970 \<le> \<bar>n\<bar>)"
  using equal_py_finite [of a x b y] equal_py_nonfinite_left [of a fa b]
    equal_py_nonfinite_right [of a x b fb] equal_py_raise_left [of a b e]
    equal_py_raise_right [of a x b e] equal_py_other [of a b]
    float_of_int_exact [of n] to_float_int_overflow [of n]
  by simp

text \<open>The statement at concrete operands of each kind.\<close>

theorem equal_py_characterisation_witness:
  "equal_py (PFloat (Fin 1)) (PFloat (Fin (1 + 1 / 10 ^ 7))) = Inr True
   \<and> equal_py (PFloat (Fin 1)) (PFloat (Fin 0)) = Inr False
   \<and> equal_py (PFloat PosInf) (PFloat PosInf) = Inr False
   \<and> equal_py (PFloat (Fin 1)) (PFloat (NaN 0)) = Inr False
   \<and> equal_py (PInt (2 ^ 1024)) (PInt 0) = Inl OverflowError
   \<and> equal_py (PFloat (Fin 0)) (PInt (2 ^ 1024)) = Inl OverflowError
   \<and> equal_py (PStr ''a'') (PStr ''a'') = Inr True
   \<and> equal_py (PBool True) (PInt 1) = Inr True
   \<and> to_float (PInt 3) = Inr (Fin 3)"
proof -
  note T = equal_py_characterisation
  have ov: "to_float (PInt (2 ^ 1024)) = Inl OverflowError"
    using T [where n = "2 ^ 1024"] by simp
  have 1: "equal_py (PFloat (Fin 1)) (PFloat (Fin (1 + 1 / 10 ^ 7))) = Inr True"
    using T [where a = "PFloat (Fin 1)" and x = 1 and b = "PFloat (Fin (1 + 1 / 10 ^ 7))"
        and y = "1 + 1 / 10 ^ 7"] by simp
  have 2: "equal_py (PFloat (Fin 1)) (PFloat (Fin 0)) = Inr False"
    using T [where a = "PFloat (Fin 1)" and x = 1 and b = "PFloat (Fin 0)" and y = 0] by simp
  have 3: "equal_py (PFloat PosInf) (PFloat PosInf) = Inr False"
    using T [where a = "PFloat PosInf" and b = "PFloat PosInf" and fa = PosInf] by simp
  have 4: "equal_py (PFloat (Fin 1)) (PFloat (NaN 0)) = Inr False"
    using T [where a = "PFloat (Fin 1)" and x = 1 and b = "PFloat (NaN 0)" and fb = "NaN 0"] by simp
  have 5: "equal_py (PInt (2 ^ 1024)) (PInt 0) = Inl OverflowError"
    using T [where a = "PInt (2 ^ 1024)" and b = "PInt 0" and e = OverflowError] ov by simp
  have 6: "equal_py (PFloat (Fin 0)) (PInt (2 ^ 1024)) = Inl OverflowError"
    using T [where a = "PFloat (Fin 0)" and x = 0 and b = "PInt (2 ^ 1024)" and e = OverflowError] ov
    by simp
  have 7: "equal_py (PStr ''a'') (PStr ''a'') = Inr True"
    using T [where a = "PStr ''a''" and b = "PStr ''a''"] by simp
  have 8: "equal_py (PBool True) (PInt 1) = Inr True"
    using T [where a = "PBool True" and b = "PInt 1"] by simp
  have 9: "to_float (PInt 3) = Inr (Fin 3)"
    using T [where n = 3] by simp
  from 1 2 3 4 5 6 7 8 9 show ?thesis by simp
qed

text \<open>
  As the claim is worded (true exactly when the difference is at most \<open>1e-6\<close>) it fails on
  two integers that differ by one but round to the same binary64 number, and on an integer
  beyond the binary64 range, where nothing is returned.
\<close>

theorem equal_py_counterexample:
  "equal_py (PInt 9007199254740993) (PInt 9007199254740992) = Inr True
   \<and> \<not> \<bar>(9007199254740993 :: rat) - 9007199254740992\<bar> \<le> 1 / 10 ^ 6
   \<and> equal_py (PInt (2 ^ 1024)) (PInt 0) = Inl OverflowError"
proof -
  have a: "to_float (PInt 9007199254740993) = Inr (Fin 9007199254740992)"
    by (simp add: float_of_int_2p53_1)
  have b: "to_float (PInt 9007199254740992) = Inr (Fin (of_int 9007199254740992))"
    by (simp only: to_float.simps) (rule float_of_int_exact, simp)
  have 1: "equal_py (PInt 9007199254740993) (PInt 9007199254740992) = Inr True"
    unfolding equal_py_finite [OF a b] by simp
  have "float_of_int (2 ^ 1024) = Inl OverflowError"
    unfolding float_of_int_overflow_iff by simp
  then have 2: "equal_py (PInt (2 ^ 1024)) (PInt 0) = Inl OverflowError"
    by (simp add: equal_py_def)
  from 1 2 show ?thesis by simp
qed

section \<open>Properties of the resolver and of the mutator\<close>

lemma py_eq_PStr: "py_eq v (PStr s) \<longleftrightarrow> v = PStr s"
  by (cases v) auto

lemma float_of_int_cases:
  "float_of_int n = Inl OverflowError \<or> (\<exists>x. float_of_int n = Inr (Fin x))"
  by (cases "round_double (of_int n)") (simp_all add: float_of_int_def round_double_def Let_def split: if_splits)

lemma equal_py_refl_float: "equal_py (PFloat (Fin x)) (PFloat (Fin x)) = Inr True"
  by (simp add: equal_py_floats)

lemma equal_py_refl_int:
  assumes "\<bar>n\<bar> < 2 ^ 1024 - 2 ^ 970"
  shows "equal_py (PInt n) (PInt n) = Inr True"
proof -
  have "float_of_int n \<noteq> Inl OverflowError" using assms by (simp add: float_of_int_overflow_iff)
  with float_of_int_cases [of n] obtain x where "float_of_int n = Inr (Fin x)" by auto
  then have a: "to_float (PInt n) = Inr (Fin x)" by simp
  show ?thesis unfolding equal_py_finite [OF a a] by simp
qed

lemma toggle_decision_applied:
  "equal_py current original = Inr True
     \<Longrightarrow> toggle_decision current original patched = Inr (patched, ''applied'')"
  by (simp add: toggle_decision_def)

lemma toggle_decision_reverted:
  "equal_py current original = Inr False \<Longrightarrow> equal_py current patched = Inr True
     \<Longrightarrow> toggle_decision current original patched = Inr (original, ''reverted'')"
  by (simp add: toggle_decision_def)

lemma toggle_decision_unknown:
  "equal_py current original = Inr False \<Longrightarrow> equal_py current patched = Inr False
     \<Longrightarrow> toggle_decision current original patched = Inr (PNone, ''unknown'')"
  by (simp add: toggle_decision_def)

lemma toggle_decision_raise:
  "equal_py current original = Inl e \<Longrightarrow> toggle_decision current original patched = Inl e"
  "equal_py current original = Inr False \<Longrightarrow> equal_py current patched = Inl e
     \<Longrightarrow> toggle_decision current original patched = Inl e"
  by (simp_all add: toggle_decision_def)

section \<open>Claim about the resolver\<close>

text \<open>
  Claim C1. Whatever \<open>current\<close>, \<open>original\<close> and \<open>patched\<close> are: when \<^verbatim>\<open>equal(current, original)\<close>
  is true the resolver returns \<open>(patched, "applied")\<close>; when it is false and
  \<^verbatim>\<open>equal(current, patched)\<close> is true it returns \<open>(original, "reverted")\<close>; when both are false
  it returns \<open>(None, "unknown")\<close>; and when a comparison that is reached raises
  \<^verbatim>\<open>OverflowError\<close>, so does the resolver. In particular
  \<open>resolve(original, original, patched) = (patched, "applied")\<close> whenever \<open>original\<close>
  tolerantly equals itself, and \<open>resolve(patched, original, patched) = (original, "reverted")\<close>
  whenever \<open>patched\<close> tolerantly equals itself but not \<open>original\<close>. Finite floats, integers
  within the binary64 range, strings and booleans tolerantly equal themselves.
\<close>

theorem toggle_decision_cases:
  "(equal_py current original = Inr True
      \<longrightarrow> toggle_decision current original patched = Inr (patched, ''applied''))
   \<and> (equal_py current original = Inr False \<and> equal_py current patched = Inr True
      \<longrightarrow> toggle_decision current original patched = Inr (original, ''reverted''))
   \<and> (equal_py current original = Inr False \<and> equal_py current patched = Inr False
      \<longrightarrow> toggle_decision current original patched = Inr (PNone, ''unknown''))
   \<and> (equal_py current original = Inl e
      \<longrightarrow> toggle_decision current original patched = Inl e)
   \<and> (equal_py current original = Inr False \<and> equal_py current patched = Inl e
      \<longrightarrow> toggle_decision current original patched = Inl e)
   \<and> (equal_py original original = Inr True
      \<longrightarrow> toggle_decision original original patched = Inr (patched, ''applied''))
   \<and> (equal_py patched original = Inr False \<and> equal_py patched patched = Inr True
      \<longrightarrow> toggle_decision patched original patched = Inr (original, ''reverted''))
   \<and> equal_py (PFloat (Fin x)) (PFloat (Fin x)) = Inr True
   \<and> (\<bar>n\<bar> < 2 ^ 1024 - 2 ^ 970 \<longrightarrow> equal_py (PInt n) (PInt n) = Inr True)
   \<and> equal_py (PStr s) (PStr s) = Inr True
   \<and> equal_py (PBool b) (PBool b) = Inr True"
  using toggle_decision_applied [of current original patched]
    toggle_decision_reverted [of current original patched]
    toggle_decision_unknown [of current original patched]
    toggle_decision_raise [where current = current and original = original and patched = patched and e = e]
    toggle_decision_applied [of original original patched]
    toggle_decision_reverted [of patched original patched]
    equal_py_refl_float [of x] equal_py_refl_int [of n]
  by (simp add: equal_py_other)

text \<open>The five outcomes of the resolver on concrete values.\<close>

theorem toggle_decision_cases_witness:
  "toggle_decision (PFloat (Fin 1)) (PFloat (Fin 1)) (PFloat (Fin 0)) = Inr (PFloat (Fin 0), ''applied'')
   \<and> toggle_decision (PFloat (Fin 0)) (PFloat (Fin 1)) (PFloat (Fin 0)) = Inr (PFloat (Fin 1), ''reverted'')
   \<and> toggle_decision (PFloat (Fin 5)) (PFloat (Fin 1)) (PFloat (Fin 0)) = Inr (PNone, ''unknown'')
   \<and> toggle_decision (PInt (2 ^ 1024)) (PInt 1) (PInt 0) = Inl OverflowError
   \<and> toggle_decision (PInt 1) (PInt 0) (PInt (2 ^ 1024)) = Inl OverflowError
   \<and> equal_py (PInt 7) (PInt 7) = Inr True"
proof -
  note T = toggle_decision_cases
  have e11: "equal_py (PFloat (Fin 1)) (PFloat (Fin 1)) = Inr True"
    and e01: "equal_py (PFloat (Fin 0)) (PFloat (Fin 1)) = Inr False"
    and e00: "equal_py (PFloat (Fin 0)) (PFloat (Fin 0)) = Inr True"
    and e51: "equal_py (PFloat (Fin 5)) (PFloat (Fin 1)) = Inr False"
    and e50: "equal_py (PFloat (Fin 5)) (PFloat (Fin 0)) = Inr False"
    by (simp_all add: equal_py_floats)
  have ov: "float_of_int (2 ^ 1024) = Inl OverflowError"
    unfolding float_of_int_overflow_iff by simp
  have o1: "equal_py (PInt (2 ^ 1024)) (PInt 1) = Inl OverflowError"
    using ov by (simp add: equal_py_def)
  have i10: "equal_py (PInt 1) (PInt 0) = Inr False"
    by (simp add: equal_py_small_ints)
  have o2: "equal_py (PInt 1) (PInt (2 ^ 1024)) = Inl OverflowError"
    using ov float_of_int_exact [of 1] by (simp add: equal_py_def)
  have 1: "toggle_decision (PFloat (Fin 1)) (PFloat (Fin 1)) (PFloat (Fin 0)) = Inr (PFloat (Fin 0), ''applied'')"
    using T [where original = "PFloat (Fin 1)" and patched = "PFloat (Fin 0)"] e11 by simp
  have 2: "toggle_decision (PFloat (Fin 0)) (PFloat (Fin 1)) (PFloat (Fin 0)) = Inr (PFloat (Fin 1), ''reverted'')"
    using T [where original = "PFloat (Fin 1)" and patched = "PFloat (Fin 0)"] e01 e00 by simp
  have 3: "toggle_decision (PFloat (Fin 5)) (PFloat (Fin 1)) (PFloat (Fin 0)) = Inr (PNone, ''unknown'')"
    using T [where current = "PFloat (Fin 5)" and original = "PFloat (Fin 1)" and patched = "PFloat (Fin 0)"]
      e51 e50 by simp
  have 4: "toggle_decision (PInt (2 ^ 1024)) (PInt 1) (PInt 0) = Inl OverflowError"
    using T [where current = "PInt (2 ^ 1024)" and original = "PInt 1" and patched = "PInt 0"
        and e = OverflowError] o1 by simp
  have 5: "toggle_decision (PInt 1) (PInt 0) (PInt (2 ^ 1024)) = Inl OverflowError"
    using T [where current = "PInt 1" and original = "PInt 0" and patched = "PInt (2 ^ 1024)"
        and e = OverflowError] i10 o2 by simp
  have 6: "equal_py (PInt 7) (PInt 7) = Inr True"
    using T [where n = 7] by simp
  from 1 2 3 4 5 6 show ?thesis by simp
qed

text \<open>
  Without the condition that the value equals itself the last part fails: an infinity is
  not tolerantly equal to anything, itself included, so \<open>resolve(inf, inf, 0.0)\<close> and
  \<open>resolve(inf, 0.0, inf)\<close> are both \<open>(None, "unknown")\<close>.
\<close>

theorem toggle_decision_counterexample:
  "equal_py (PFloat PosInf) (PFloat (Fin 0)) = Inr False
   \<and> toggle_decision (PFloat PosInf) (PFloat PosInf) (PFloat (Fin 0)) = Inr (PNone, ''unknown'')
   \<and> equal_py (PFloat (Fin 0)) (PFloat PosInf) = Inr False
   \<and> toggle_decision (PFloat PosInf) (PFloat (Fin 0)) (PFloat PosInf) = Inr (PNone, ''unknown'')"
  by (simp add: toggle_decision_def equal_py_def)

lemma toggle_decision_modes:
  assumes "toggle_decision cur original patched = Inr (new, mode)" and "new \<noteq> PNone"
  shows "mode = ''applied'' \<or> mode = ''reverted''"
  using assms by (auto simp add: toggle_decision_def split: sum.splits if_splits)

lemma mutator_index_error:
  assumes "axis_index < 0 \<or> int (length axes) \<le> axis_index"
  shows "toggle_legacy_axis_field axes axis_index field original patched axis_name =
           (Inl (IndexError axis_index (length axes)), axes)"
  using assms by (auto simp add: toggle_legacy_axis_field_def)

lemma mutator_error_frame:
  assumes "toggle_legacy_axis_field axes axis_index field original patched axis_name = (Inl e, axes')"
  shows "axes' = axes"
  using assms
  by (auto simp add: toggle_legacy_axis_field_def Let_def
      split: if_splits pyval.splits option.splits sum.splits prod.splits)

lemma mutator_success_shape:
  assumes "toggle_legacy_axis_field axes axis_index field original patched axis_name =
             (Inr (mode, line, chk), axes')"
  shows "0 \<le> axis_index \<and> axis_index < int (length axes)
     \<and> (\<exists>ax cur new. axes ! nat axis_index = PDict ax \<and> map_of ax field = Some cur
            \<and> toggle_decision cur original patched = Inr (new, mode) \<and> new \<noteq> PNone
            \<and> line = LogLine axis_index (dict_get ax ''m_Name'' (PStr [])) field cur new
            \<and> chk = (if name_given axis_name then AxisNameOk (dict_get ax ''m_Name'' (PStr []))
                      else AxisNameSkipped)
            \<and> axes' = axes[nat axis_index := PDict (AList.update field new ax)])"
  using assms
  by (auto simp add: toggle_legacy_axis_field_def Let_def
      split: if_splits pyval.splits option.splits sum.splits prod.splits)

lemma mutator_success:
  assumes "0 \<le> axis_index" and "axis_index < int (length axes)"
    and "axes ! nat axis_index = PDict ax"
    and "\<not> (name_given axis_name \<and> dict_get ax ''m_Name'' (PStr []) \<noteq> PStr (name_str axis_name))"
    and "map_of ax field = Some cur"
    and "toggle_decision cur original patched = Inr (new, mode)" and "new \<noteq> PNone"
  shows "toggle_legacy_axis_field axes axis_index field original patched axis_name =
     (Inr (mode, LogLine axis_index (dict_get ax ''m_Name'' (PStr [])) field cur new,
           if name_given axis_name then AxisNameOk (dict_get ax ''m_Name'' (PStr []))
           else AxisNameSkipped),
      axes[nat axis_index := PDict (AList.update field new ax)])"
  using assms by (auto simp add: toggle_legacy_axis_field_def Let_def py_eq_PStr)

section \<open>Claims about the mutator\<close>

text \<open>
  Claim C5. For every collection and every index that is negative or at least the
  length of the collection, the mutator fails with the out-of-range index error and
  leaves every element as it was; the index is not clamped.
\<close>

theorem mutator_index_out_of_range:
  "axis_index < 0 \<or> int (length axes) \<le> axis_index \<Longrightarrow>
     toggle_legacy_axis_field axes axis_index field original patched axis_name =
       (Inl (IndexError axis_index (length axes)), axes)"
  by (rule mutator_index_error)

text \<open>The index equal to the length, and a negative index, on a collection of one axis.\<close>

theorem mutator_index_out_of_range_witness:
  "toggle_legacy_axis_field [PDict [(''m_Name'', PStr ''Horizontal''), (''sensitivity'', PFloat (Fin 1))]]
       1 ''sensitivity'' (PFloat (Fin 1)) (PFloat (Fin 0)) None
     = (Inl (IndexError 1 1), [PDict [(''m_Name'', PStr ''Horizontal''), (''sensitivity'', PFloat (Fin 1))]])
   \<and> toggle_legacy_axis_field [PDict [(''m_Name'', PStr ''Horizontal''), (''sensitivity'', PFloat (Fin 1))]]
       (- 1) ''sensitivity'' (PFloat (Fin 1)) (PFloat (Fin 0)) None
     = (Inl (IndexError (- 1) 1), [PDict [(''m_Name'', PStr ''Horizontal''), (''sensitivity'', PFloat (Fin 1))]])"
  using mutator_index_out_of_range [of 1 "[PDict [(''m_Name'', PStr ''Horizontal''), (''sensitivity'', PFloat (Fin 1))]]"
      "''sensitivity''" "PFloat (Fin 1)" "PFloat (Fin 0)" None]
    mutator_index_out_of_range [of "- 1" "[PDict [(''m_Name'', PStr ''Horizontal''), (''sensitivity'', PFloat (Fin 1))]]"
      "''sensitivity''" "PFloat (Fin 1)" "PFloat (Fin 0)" None]
  by simp

lemma mutator_empty_name:
  "toggle_legacy_axis_field axes axis_index field original patched (Some []) =
   toggle_legacy_axis_field axes axis_index field original patched None"
proof -
  have ng: "name_given (Some []) = False" by simp
  show ?thesis
    unfolding toggle_legacy_axis_field_def ng name_given.simps(1) name_str.simps ..
qed

lemma mutator_name_error:
  assumes "0 \<le> axis_index" and "axis_index < int (length axes)"
    and "axes ! nat axis_index = PDict ax"
    and "expected \<noteq> []"
    and "dict_get ax ''m_Name'' (PStr []) \<noteq> PStr expected"
  shows "toggle_legacy_axis_field axes axis_index field original patched (Some expected) =
           (Inl (AxisNameMismatch axis_index expected (dict_get ax ''m_Name'' (PStr []))), axes)"
  using assms by (simp add: toggle_legacy_axis_field_def Let_def py_eq_PStr)

text \<open>
  Claim C6. When an expected axis name that is not the empty string is supplied and it
  differs from the live name of the indexed element, the call fails with the
  name-mismatch error before the field is written: the collection is returned as it was.
  An expected name that is the empty string is taken as no name at all: the call does
  what it does without one.
\<close>

theorem mutator_name_mismatch:
  "(0 \<le> axis_index \<and> axis_index < int (length axes) \<and> axes ! nat axis_index = PDict ax
      \<and> expected \<noteq> [] \<and> dict_get ax ''m_Name'' (PStr []) \<noteq> PStr expected
     \<longrightarrow> toggle_legacy_axis_field axes axis_index field original patched (Some expected) =
           (Inl (AxisNameMismatch axis_index expected (dict_get ax ''m_Name'' (PStr []))), axes))
   \<and> toggle_legacy_axis_field axes axis_index field original patched (Some []) =
       toggle_legacy_axis_field axes axis_index field original patched None"
  using mutator_name_error [of axis_index axes ax expected field original patched]
    mutator_empty_name [of axes axis_index field original patched]
  by simp

text \<open>The axis \<open>Horizontal\<close> against the expected name \<open>Vertical\<close>.\<close>

theorem mutator_name_mismatch_witness:
  "toggle_legacy_axis_field [PDict [(''m_Name'', PStr ''Horizontal''), (''sensitivity'', PFloat (Fin 1))]]
       0 ''sensitivity'' (PFloat (Fin 1)) (PFloat (Fin 0)) (Some ''Vertical'')
     = (Inl (AxisNameMismatch 0 ''Vertical'' (PStr ''Horizontal'')),
        [PDict [(''m_Name'', PStr ''Horizontal''), (''sensitivity'', PFloat (Fin 1))]])"
  using mutator_name_mismatch [of 0 "[PDict [(''m_Name'', PStr ''Horizontal''), (''sensitivity'', PFloat (Fin 1))]]"
      "[(''m_Name'', PStr ''Horizontal''), (''sensitivity'', PFloat (Fin 1))]" "''Vertical''"
      "''sensitivity''" "PFloat (Fin 1)" "PFloat (Fin 0)"]
  by (simp add: dict_get_def)

text \<open>
  A supplied name that is empty differs from the live name \<open>Horizontal\<close>, and yet the call
  does not fail: the name check is skipped and the field is written.
\<close>

theorem mutator_name_mismatch_counterexample:
  "dict_get [(''m_Name'', PStr ''Horizontal''), (''sensitivity'', PFloat (Fin 1))] ''m_Name'' (PStr [])
     \<noteq> PStr []
   \<and> toggle_legacy_axis_field [PDict [(''m_Name'', PStr ''Horizontal''), (''sensitivity'', PFloat (Fin 1))]]
       0 ''sensitivity'' (PFloat (Fin 1)) (PFloat (Fin 0)) (Some [])
     = (Inr (''applied'', LogLine 0 (PStr ''Horizontal'') ''sensitivity'' (PFloat (Fin 1)) (PFloat (Fin 0)),
             AxisNameSkipped),
        [PDict [(''m_Name'', PStr ''Horizontal''), (''sensitivity'', PFloat (Fin 0))]])"
proof -
  have td: "toggle_decision (PFloat (Fin 1)) (PFloat (Fin 1)) (PFloat (Fin 0)) = Inr (PFloat (Fin 0), ''applied'')"
    by (simp add: toggle_decision_def equal_py_floats)
  show ?thesis
    by (simp add: toggle_legacy_axis_field_def dict_get_def td)
qed

lemma toggle_decision_new:
  assumes "toggle_decision cur original patched = Inr (new, mode)" and "new \<noteq> PNone"
  shows "new = patched \<or> new = original"
  using assms by (auto simp add: toggle_decision_def split: sum.splits if_splits)

text \<open>
  Claim C9. A call that succeeds writes one field of one element: the collection keeps
  its length, every element but the indexed one is the same, the indexed element keeps
  its keys in their order and the value of every key but \<open>field\<close>, which was present and
  now holds \<open>patched\<close> or \<open>original\<close>. A call that fails, with whatever error, returns the
  collection unchanged.
\<close>

theorem mutator_frame:
  "(toggle_legacy_axis_field axes axis_index field original patched axis_name = (Inr res, axes') \<longrightarrow>
      0 \<le> axis_index \<and> axis_index < int (length axes) \<and> length axes' = length axes
      \<and> (\<forall>j. j \<noteq> nat axis_index \<longrightarrow> axes' ! j = axes ! j)
      \<and> (\<exists>ax ax'. axes ! nat axis_index = PDict ax \<and> axes' ! nat axis_index = PDict ax'
            \<and> map fst ax' = map fst ax
            \<and> (\<forall>k. k \<noteq> field \<longrightarrow> map_of ax' k = map_of ax k)
            \<and> map_of ax field \<noteq> None
            \<and> (map_of ax' field = Some patched \<or> map_of ax' field = Some original)))
   \<and> (toggle_legacy_axis_field axes axis_index field original patched axis_name = (Inl e, axes') \<longrightarrow>
      axes' = axes)"
proof (intro conjI impI)
  assume "toggle_legacy_axis_field axes axis_index field original patched axis_name = (Inl e, axes')"
  then show "axes' = axes" by (rule mutator_error_frame)
next
  assume h: "toggle_legacy_axis_field axes axis_index field original patched axis_name = (Inr res, axes')"
  obtain mode line chk where res: "res = (mode, line, chk)" by (cases res)
  from mutator_success_shape [OF h [unfolded res]]
  obtain ax cur new where i0: "0 \<le> axis_index" and i1: "axis_index < int (length axes)"
    and ax: "axes ! nat axis_index = PDict ax" and cur: "map_of ax field = Some cur"
    and td: "toggle_decision cur original patched = Inr (new, mode)" and nn: "new \<noteq> PNone"
    and ax': "axes' = axes[nat axis_index := PDict (AList.update field new ax)]"
    by blast
  show "0 \<le> axis_index" by (rule i0)
  show "axis_index < int (length axes)" by (rule i1)
  show "length axes' = length axes" by (simp add: ax')
  show "\<forall>j. j \<noteq> nat axis_index \<longrightarrow> axes' ! j = axes ! j" by (simp add: ax')
  have lt: "nat axis_index < length axes" using i0 i1 by simp
  have mem: "field \<in> set (map fst ax)" using cur by (auto dest: map_of_SomeD intro: rev_image_eqI)
  have keys: "map fst (AList.update field new ax) = map fst ax"
    using mem by (simp add: update_keys)
  have others: "\<forall>k. k \<noteq> field \<longrightarrow> map_of (AList.update field new ax) k = map_of ax k"
    by (simp add: update_conv')
  have val: "map_of (AList.update field new ax) field = Some new" by (simp add: update_conv')
  from toggle_decision_new [OF td nn]
  have "map_of (AList.update field new ax) field = Some patched
      \<or> map_of (AList.update field new ax) field = Some original"
    unfolding val by auto
  with keys others cur ax lt
  show "\<exists>ax ax'. axes ! nat axis_index = PDict ax \<and> axes' ! nat axis_index = PDict ax'
            \<and> map fst ax' = map fst ax
            \<and> (\<forall>k. k \<noteq> field \<longrightarrow> map_of ax' k = map_of ax k)
            \<and> map_of ax field \<noteq> None
            \<and> (map_of ax' field = Some patched \<or> map_of ax' field = Some original)"
    by (simp add: ax')
qed

text \<open>
  A successful call on the second of two axes, which leaves the first axis alone, and a
  call that fails on a missing field.
\<close>

theorem mutator_frame_witness:
  "toggle_legacy_axis_field
       [PDict [(''m_Name'', PStr ''Horizontal''), (''sensitivity'', PFloat (Fin 1))],
        PDict [(''m_Name'', PStr ''Vertical''), (''sensitivity'', PFloat (Fin 1))]]
       1 ''sensitivity'' (PFloat (Fin 1)) (PFloat (Fin 0)) None
     = (Inr (''applied'', LogLine 1 (PStr ''Vertical'') ''sensitivity'' (PFloat (Fin 1)) (PFloat (Fin 0)),
             AxisNameSkipped),
        [PDict [(''m_Name'', PStr ''Horizontal''), (''sensitivity'', PFloat (Fin 1))],
         PDict [(''m_Name'', PStr ''Vertical''), (''sensitivity'', PFloat (Fin 0))]])
   \<and> [PDict [(''m_Name'', PStr ''Horizontal''), (''sensitivity'', PFloat (Fin 1))],
       PDict [(''m_Name'', PStr ''Vertical''), (''sensitivity'', PFloat (Fin 0))]] ! 0
     = PDict [(''m_Name'', PStr ''Horizontal''), (''sensitivity'', PFloat (Fin 1))]
   \<and> toggle_legacy_axis_field
       [PDict [(''m_Name'', PStr ''Horizontal''), (''sensitivity'', PFloat (Fin 1))]]
       0 ''gravity'' (PFloat (Fin 1)) (PFloat (Fin 0)) None
     = (Inl (FieldNotPresent ''gravity'' 0 (PStr ''Horizontal'')),
        [PDict [(''m_Name'', PStr ''Horizontal''), (''sensitivity'', PFloat (Fin 1))]])"
proof -
  define axes where "axes = [PDict [(''m_Name'', PStr ''Horizontal''), (''sensitivity'', PFloat (Fin 1))],
        PDict [(''m_Name'', PStr ''Vertical''), (''sensitivity'', PFloat (Fin 1))]]"
  define axes' where "axes' = [PDict [(''m_Name'', PStr ''Horizontal''), (''sensitivity'', PFloat (Fin 1))],
         PDict [(''m_Name'', PStr ''Vertical''), (''sensitivity'', PFloat (Fin 0))]]"
  have td: "toggle_decision (PFloat (Fin 1)) (PFloat (Fin 1)) (PFloat (Fin 0)) = Inr (PFloat (Fin 0), ''applied'')"
    by (simp add: toggle_decision_def equal_py_floats)
  have 1: "toggle_legacy_axis_field axes 1 ''sensitivity'' (PFloat (Fin 1)) (PFloat (Fin 0)) None
     = (Inr (''applied'', LogLine 1 (PStr ''Vertical'') ''sensitivity'' (PFloat (Fin 1)) (PFloat (Fin 0)),
             AxisNameSkipped), axes')"
    by (simp add: toggle_legacy_axis_field_def axes_def axes'_def dict_get_def td)
  have 3: "toggle_legacy_axis_field
       [PDict [(''m_Name'', PStr ''Horizontal''), (''sensitivity'', PFloat (Fin 1))]]
       0 ''gravity'' (PFloat (Fin 1)) (PFloat (Fin 0)) None
     = (Inl (FieldNotPresent ''gravity'' 0 (PStr ''Horizontal'')),
        [PDict [(''m_Name'', PStr ''Horizontal''), (''sensitivity'', PFloat (Fin 1))]])"
    by (simp add: toggle_legacy_axis_field_def dict_get_def)
  from mutator_frame [of axes 1 "''sensitivity''" "PFloat (Fin 1)" "PFloat (Fin 0)" None
      "(''applied'', LogLine 1 (PStr ''Vertical'') ''sensitivity'' (PFloat (Fin 1)) (PFloat (Fin 0)), AxisNameSkipped)"
      axes'] 1
  have "\<forall>j. j \<noteq> nat 1 \<longrightarrow> axes' ! j = axes ! j" by simp
  then have 2: "axes' ! 0 = axes ! 0" by simp
  from mutator_frame [of "[PDict [(''m_Name'', PStr ''Horizontal''), (''sensitivity'', PFloat (Fin 1))]]"
      0 "''gravity''" "PFloat (Fin 1)" "PFloat (Fin 0)" None _
      "[PDict [(''m_Name'', PStr ''Horizontal''), (''sensitivity'', PFloat (Fin 1))]]"
      "FieldNotPresent ''gravity'' 0 (PStr ''Horizontal'')"] 3
  have True by simp
  from 1 2 3 show ?thesis by (simp add: axes_def axes'_def)
qed

text \<open>
  Claim C4. Let the index be in range, the field be present with a live value that
  tolerantly equals \<open>original\<close>, and the name check pass (and, when a name is expected, the
  field not be the name itself). If \<open>patched\<close> does not tolerantly equal \<open>original\<close>,
  \<open>patched\<close> tolerantly equals itself, and neither of the two is \<^verbatim>\<open>None\<close>, then the first
  call sets the field to \<open>patched\<close> with direction \<open>"applied"\<close>, and a second call with the
  same arguments sets it to exactly \<open>original\<close> with direction \<open>"reverted"\<close>; when the live
  value was exactly \<open>original\<close> the collection is back to what it was.
\<close>

theorem mutator_round_trip:
  assumes "0 \<le> axis_index" and "axis_index < int (length axes)"
    and "axes ! nat axis_index = PDict ax"
    and "map_of ax field = Some cur"
    and "\<not> (name_given axis_name \<and> dict_get ax ''m_Name'' (PStr []) \<noteq> PStr (name_str axis_name))"
    and "\<not> (name_given axis_name \<and> field = ''m_Name'')"
    and "equal_py cur original = Inr True"
    and "equal_py patched original = Inr False"
    and "equal_py patched patched = Inr True"
    and "patched \<noteq> PNone" and "original \<noteq> PNone"
    and "axes1 = axes[nat axis_index := PDict (AList.update field patched ax)]"
    and "axes2 = axes[nat axis_index := PDict (AList.update field original ax)]"
  shows "(\<exists>line chk. toggle_legacy_axis_field axes axis_index field original patched axis_name
              = (Inr (''applied'', line, chk), axes1))
     \<and> (\<exists>ax1. axes1 ! nat axis_index = PDict ax1 \<and> map_of ax1 field = Some patched)
     \<and> (\<exists>line chk. toggle_legacy_axis_field axes1 axis_index field original patched axis_name
              = (Inr (''reverted'', line, chk), axes2))
     \<and> (\<exists>ax2. axes2 ! nat axis_index = PDict ax2 \<and> map_of ax2 field = Some original)
     \<and> (cur = original \<longrightarrow> axes2 = axes)"
proof -
  have lt: "nat axis_index < length axes" using assms(1,2) by simp
  have td1: "toggle_decision cur original patched = Inr (patched, ''applied'')"
    using assms(7) by (rule toggle_decision_applied)
  have td2: "toggle_decision patched original patched = Inr (original, ''reverted'')"
    using assms(8,9) by (rule toggle_decision_reverted)
  have first: "toggle_legacy_axis_field axes axis_index field original patched axis_name =
     (Inr (''applied'', LogLine axis_index (dict_get ax ''m_Name'' (PStr [])) field cur patched,
           if name_given axis_name then AxisNameOk (dict_get ax ''m_Name'' (PStr []))
           else AxisNameSkipped), axes1)"
    unfolding assms(12)
    by (rule mutator_success [OF assms(1,2,3,5,4) td1 assms(10)])
  define ax1 where "ax1 = AList.update field patched ax"
  have a1: "axes1 ! nat axis_index = PDict ax1" using lt by (simp add: assms(12) ax1_def)
  have l1: "axis_index < int (length axes1)" using assms(2) by (simp add: assms(12))
  have cur1: "map_of ax1 field = Some patched" by (simp add: ax1_def update_conv')
  have name1: "\<not> (name_given axis_name
      \<and> dict_get ax1 ''m_Name'' (PStr []) \<noteq> PStr (name_str axis_name))"
  proof (cases "name_given axis_name")
    case True
    with assms(6) have "field \<noteq> ''m_Name''" by simp
    then have "dict_get ax1 ''m_Name'' (PStr []) = dict_get ax ''m_Name'' (PStr [])"
      by (simp add: dict_get_def ax1_def update_conv')
    with assms(5) show ?thesis by simp
  next
    case False
    then show ?thesis by simp
  qed
  have upd: "axes1[nat axis_index := PDict (AList.update field original ax1)] = axes2"
    by (simp add: assms(12,13) ax1_def)
  have second: "toggle_legacy_axis_field axes1 axis_index field original patched axis_name =
     (Inr (''reverted'', LogLine axis_index (dict_get ax1 ''m_Name'' (PStr [])) field patched original,
           if name_given axis_name then AxisNameOk (dict_get ax1 ''m_Name'' (PStr []))
           else AxisNameSkipped), axes2)"
    using mutator_success [OF assms(1) l1 a1 name1 cur1 td2 assms(11)] by (simp only: upd)
  have a2: "axes2 ! nat axis_index = PDict (AList.update field original ax)"
    using lt by (simp add: assms(13))
  have v2: "map_of (AList.update field original ax) field = Some original"
    by (simp add: update_conv')
  have same: "cur = original \<longrightarrow> axes2 = axes"
  proof
    assume "cur = original"
    with assms(4) have "AList.update field original ax = ax" by (simp add: update_triv)
    then show "axes2 = axes" using assms(3) lt by (simp add: assms(13) list_update_same_conv)
  qed
  from first a1 cur1 second a2 v2 same show ?thesis by blast
qed

text \<open>
  The end-to-end example of the specification: \<open>sensitivity\<close> of the axis \<open>Horizontal\<close> goes
  from \<open>1.0\<close> to \<open>0.0\<close> and back.
\<close>

theorem mutator_round_trip_witness:
  "toggle_legacy_axis_field
       [PDict [(''m_Name'', PStr ''Horizontal''), (''sensitivity'', PFloat (Fin 1))]]
       0 ''sensitivity'' (PFloat (Fin 1)) (PFloat (Fin 0)) (Some ''Horizontal'')
     = (Inr (''applied'', LogLine 0 (PStr ''Horizontal'') ''sensitivity'' (PFloat (Fin 1)) (PFloat (Fin 0)),
             AxisNameOk (PStr ''Horizontal'')),
        [PDict [(''m_Name'', PStr ''Horizontal''), (''sensitivity'', PFloat (Fin 0))]])
   \<and> toggle_legacy_axis_field
       [PDict [(''m_Name'', PStr ''Horizontal''), (''sensitivity'', PFloat (Fin 0))]]
       0 ''sensitivity'' (PFloat (Fin 1)) (PFloat (Fin 0)) (Some ''Horizontal'')
     = (Inr (''reverted'', LogLine 0 (PStr ''Horizontal'') ''sensitivity'' (PFloat (Fin 0)) (PFloat (Fin 1)),
             AxisNameOk (PStr ''Horizontal'')),
        [PDict [(''m_Name'', PStr ''Horizontal''), (''sensitivity'', PFloat (Fin 1))]])"
proof -
  define ax where "ax = [(''m_Name'', PStr ''Horizontal''), (''sensitivity'', PFloat (Fin 1))]"
  define ax1 where "ax1 = [(''m_Name'', PStr ''Horizontal''), (''sensitivity'', PFloat (Fin 0))]"
  have e1: "equal_py (PFloat (Fin 1)) (PFloat (Fin 1)) = Inr True"
    and e2: "equal_py (PFloat (Fin 0)) (PFloat (Fin 1)) = Inr False"
    and e3: "equal_py (PFloat (Fin 0)) (PFloat (Fin 0)) = Inr True"
    by (simp_all add: equal_py_floats)
  have u1: "[PDict ax][nat 0 := PDict (AList.update ''sensitivity'' (PFloat (Fin 0)) ax)] = [PDict ax1]"
    by (simp add: ax_def ax1_def)
  have u2: "[PDict ax][nat 0 := PDict (AList.update ''sensitivity'' (PFloat (Fin 1)) ax)] = [PDict ax]"
    by (simp add: ax_def)
  have R: "(\<exists>line chk. toggle_legacy_axis_field [PDict ax] 0 ''sensitivity'' (PFloat (Fin 1)) (PFloat (Fin 0)) (Some ''Horizontal'')
              = (Inr (''applied'', line, chk), [PDict ax1]))
     \<and> (\<exists>line chk. toggle_legacy_axis_field [PDict ax1] 0 ''sensitivity'' (PFloat (Fin 1)) (PFloat (Fin 0)) (Some ''Horizontal'')
              = (Inr (''reverted'', line, chk), [PDict ax]))"
    using mutator_round_trip [of 0 "[PDict ax]" ax "''sensitivity''" "PFloat (Fin 1)"
        "Some ''Horizontal''" "PFloat (Fin 1)" "PFloat (Fin 0)" "[PDict ax1]" "[PDict ax]"]
      e1 e2 e3 u1 u2
    by (simp add: ax_def dict_get_def)
  have td1: "toggle_decision (PFloat (Fin 1)) (PFloat (Fin 1)) (PFloat (Fin 0)) = Inr (PFloat (Fin 0), ''applied'')"
    using e1 by (rule toggle_decision_applied)
  have td2: "toggle_decision (PFloat (Fin 0)) (PFloat (Fin 1)) (PFloat (Fin 0)) = Inr (PFloat (Fin 1), ''reverted'')"
    using e2 e3 by (rule toggle_decision_reverted)
  from R obtain l1 c1 l2 c2 where
    r1: "toggle_legacy_axis_field [PDict ax] 0 ''sensitivity'' (PFloat (Fin 1)) (PFloat (Fin 0)) (Some ''Horizontal'')
              = (Inr (''applied'', l1, c1), [PDict ax1])"
    and r2: "toggle_legacy_axis_field [PDict ax1] 0 ''sensitivity'' (PFloat (Fin 1)) (PFloat (Fin 0)) (Some ''Horizontal'')
              = (Inr (''reverted'', l2, c2), [PDict ax])"
    by blast
  from mutator_success_shape [OF r1]
  have "l1 = LogLine 0 (PStr ''Horizontal'') ''sensitivity'' (PFloat (Fin 1)) (PFloat (Fin 0))
      \<and> c1 = AxisNameOk (PStr ''Horizontal'')"
    by (simp add: ax_def dict_get_def td1)
  moreover from mutator_success_shape [OF r2]
  have "l2 = LogLine 0 (PStr ''Horizontal'') ''sensitivity'' (PFloat (Fin 0)) (PFloat (Fin 1))
      \<and> c2 = AxisNameOk (PStr ''Horizontal'')"
    by (simp add: ax1_def dict_get_def td2)
  ultimately show ?thesis using r1 r2 by (simp add: ax_def ax1_def)
qed

text \<open>
  Without the added conditions the round trip fails. With \<open>patched\<close> an infinity the first
  call applies it and the second call finds an unknown state, since an infinity does not
  equal itself. With \<open>patched\<close> being \<^verbatim>\<open>None\<close> the first call already fails, and with
  \<open>original\<close> being \<^verbatim>\<open>None\<close> the second one does: the mutator reads the value \<^verbatim>\<open>None\<close>
  returned by the resolver as "no value".
\<close>

theorem mutator_round_trip_counterexample:
  "equal_py (PFloat PosInf) (PFloat (Fin 1)) = Inr False
   \<and> equal_py (PFloat (Fin 1)) (PFloat PosInf) = Inr False
   \<and> equal_py (PFloat (Fin 1)) (PFloat (Fin 1)) = Inr True
   \<and> toggle_legacy_axis_field
       [PDict [(''m_Name'', PStr ''Horizontal''), (''sensitivity'', PFloat (Fin 1))]]
       0 ''sensitivity'' (PFloat (Fin 1)) (PFloat PosInf) None
     = (Inr (''applied'', LogLine 0 (PStr ''Horizontal'') ''sensitivity'' (PFloat (Fin 1)) (PFloat PosInf),
             AxisNameSkipped),
        [PDict [(''m_Name'', PStr ''Horizontal''), (''sensitivity'', PFloat PosInf)]])
   \<and> toggle_legacy_axis_field
       [PDict [(''m_Name'', PStr ''Horizontal''), (''sensitivity'', PFloat PosInf)]]
       0 ''sensitivity'' (PFloat (Fin 1)) (PFloat PosInf) None
     = (Inl (UnknownState 0 (PStr ''Horizontal'') ''sensitivity'' (PFloat PosInf) (PFloat (Fin 1)) (PFloat PosInf)),
        [PDict [(''m_Name'', PStr ''Horizontal''), (''sensitivity'', PFloat PosInf)]])
   \<and> equal_py PNone (PFloat (Fin 1)) = Inr False
   \<and> toggle_legacy_axis_field
       [PDict [(''m_Name'', PStr ''Horizontal''), (''sensitivity'', PFloat (Fin 1))]]
       0 ''sensitivity'' (PFloat (Fin 1)) PNone None
     = (Inl (UnknownState 0 (PStr ''Horizontal'') ''sensitivity'' (PFloat (Fin 1)) (PFloat (Fin 1)) PNone),
        [PDict [(''m_Name'', PStr ''Horizontal''), (''sensitivity'', PFloat (Fin 1))]])
   \<and> equal_py (PFloat (Fin 0)) PNone = Inr False
   \<and> equal_py PNone PNone = Inr True
   \<and> toggle_legacy_axis_field
       [PDict [(''m_Name'', PStr ''Horizontal''), (''sensitivity'', PNone)]]
       0 ''sensitivity'' PNone (PFloat (Fin 0)) None
     = (Inr (''applied'', LogLine 0 (PStr ''Horizontal'') ''sensitivity'' PNone (PFloat (Fin 0)),
             AxisNameSkipped),
        [PDict [(''m_Name'', PStr ''Horizontal''), (''sensitivity'', PFloat (Fin 0))]])
   \<and> toggle_legacy_axis_field
       [PDict [(''m_Name'', PStr ''Horizontal''), (''sensitivity'', PFloat (Fin 0))]]
       0 ''sensitivity'' PNone (PFloat (Fin 0)) None
     = (Inl (UnknownState 0 (PStr ''Horizontal'') ''sensitivity'' (PFloat (Fin 0)) PNone (PFloat (Fin 0))),
        [PDict [(''m_Name'', PStr ''Horizontal''), (''sensitivity'', PFloat (Fin 0))]])"
proof -
  have e1: "equal_py (PFloat PosInf) (PFloat (Fin 1)) = Inr False"
    and e2: "equal_py (PFloat (Fin 1)) (PFloat PosInf) = Inr False"
    and e3: "equal_py (PFloat PosInf) (PFloat PosInf) = Inr False"
    and e5: "equal_py PNone (PFloat (Fin 1)) = Inr False"
    by (simp_all add: equal_py_def)
  have e4: "equal_py (PFloat (Fin 1)) (PFloat (Fin 1)) = Inr True"
    by (simp add: equal_py_floats)
  have td1: "toggle_decision (PFloat (Fin 1)) (PFloat (Fin 1)) (PFloat PosInf) = Inr (PFloat PosInf, ''applied'')"
    using e4 by (rule toggle_decision_applied)
  have td2: "toggle_decision (PFloat PosInf) (PFloat (Fin 1)) (PFloat PosInf) = Inr (PNone, ''unknown'')"
    using e1 e3 by (rule toggle_decision_unknown)
  have td3: "toggle_decision (PFloat (Fin 1)) (PFloat (Fin 1)) PNone = Inr (PNone, ''applied'')"
    using e4 by (rule toggle_decision_applied)
  have e6: "equal_py (PFloat (Fin 0)) PNone = Inr False"
    and e7: "equal_py PNone PNone = Inr True"
    by (simp_all add: equal_py_def)
  have e8: "equal_py (PFloat (Fin 0)) (PFloat (Fin 0)) = Inr True"
    by (simp add: equal_py_floats)
  have td4: "toggle_decision PNone PNone (PFloat (Fin 0)) = Inr (PFloat (Fin 0), ''applied'')"
    using e7 by (rule toggle_decision_applied)
  have td5: "toggle_decision (PFloat (Fin 0)) PNone (PFloat (Fin 0)) = Inr (PNone, ''reverted'')"
    using e6 e8 by (rule toggle_decision_reverted)
  show ?thesis
    by (simp add: e1 e2 e4 e5 e6 e7 toggle_legacy_axis_field_def dict_get_def td1 td2 td3 td4 td5)
qed

section \<open>Properties of the orchestrator\<close>



lemma parent_of_fixed: "parent_of (Path a ps) = Path a ps \<longleftrightarrow> ps = []"
  by (cases ps rule: rev_cases) simp_all



section \<open>Claims about the orchestrator\<close>



lemma py_int_fails_iff:
  "(\<exists>e. py_int B v = Inl e) \<longleftrightarrow>
     (case v of PNone \<Rightarrow> True | PList xs \<Rightarrow> True | PDict d \<Rightarrow> True
      | PFloat f \<Rightarrow> \<not> isfinite f | PStr s \<Rightarrow> int_of_str B s = None | _ \<Rightarrow> False)"
proof (cases v)
  case (PFloat f)
  then show ?thesis by (cases f) simp_all
next
  case (PStr s)
  then show ?thesis by (cases "int_of_str B s") simp_all
qed simp_all

lemma run_entry_axis_missing:
  assumes "py_eq (dict_get td ''type'' PNone) (PStr ''legacy_axis_field'')"
    and "map_of td ''axis'' = None"
  shows "run_entry B axes (PDict td) = (Inl (NonIntegerAxis PNone), axes)"
  using assms by (simp add: run_entry_def req_def dict_get_def)

lemma run_entry_axis_rejected:
  assumes "py_eq (dict_get td ''type'' PNone) (PStr ''legacy_axis_field'')"
    and "map_of td ''axis'' = Some v" and "py_int B v = Inl e"
  shows "run_entry B axes (PDict td) = (Inl (NonIntegerAxis v), axes)"
  using assms by (simp add: run_entry_def req_def dict_get_def)

lemma run_entry_axis_coerced:
  assumes "py_eq (dict_get td ''type'' PNone) (PStr ''legacy_axis_field'')"
    and "map_of td ''axis'' = Some v" and "py_int B v = Inr i"
    and "map_of td ''field'' = Some fv" and "map_of td ''original'' = Some original"
    and "map_of td ''patched'' = Some patched"
  shows "run_entry B axes (PDict td) =
     toggle_legacy_axis_field axes i (py_str B fv) original patched
       (axis_name_of (dict_get td ''axis_name'' PNone))"
  using assms by (simp add: run_entry_def req_def dict_get_def)

lemma axis_name_of_blank:
  assumes "case v of PStr s \<Rightarrow> list_all is_space s | _ \<Rightarrow> True"
  shows "axis_name_of v = None"
  using assms by (cases v) (simp_all add: strip_nonempty_def list_all_iff list_ex_iff)

lemma float_of_int_error: "float_of_int n = Inl e \<Longrightarrow> e = OverflowError"
  using float_of_int_cases [of n] by auto

lemma to_float_error: "is_number a \<Longrightarrow> to_float a = Inl e \<Longrightarrow> e = OverflowError"
  by (cases a) (auto dest: float_of_int_error)

lemma equal_py_error: "equal_py a b = Inl e \<Longrightarrow> e = OverflowError"
  by (auto simp add: equal_py_def split: if_splits sum.splits dest: to_float_error)

lemma toggle_decision_error: "toggle_decision c original patched = Inl e \<Longrightarrow> e = OverflowError"
  by (auto simp add: toggle_decision_def split: if_splits sum.splits dest: equal_py_error)

lemma mutator_no_name:
  "fst (toggle_legacy_axis_field axes i field original patched None) \<noteq> Inl (AxisNameMismatch j n v)"
  by (auto simp add: toggle_legacy_axis_field_def Let_def
      split: pyval.splits option.splits sum.splits prod.splits dest: toggle_decision_error)

lemma mutator_no_name_check:
  "toggle_legacy_axis_field axes i field original patched None = (Inr (mode, line, chk), axes')
     \<Longrightarrow> chk = AxisNameSkipped"
  by (drule mutator_success_shape) auto

lemma run_entry_no_name:
  assumes "axis_name_of (dict_get td ''axis_name'' PNone) = None"
  shows "fst (run_entry B axes (PDict td)) \<noteq> Inl (AxisNameMismatch j n v)"
    and "run_entry B axes (PDict td) = (Inr (mode, line, chk), axes') \<Longrightarrow> chk = AxisNameSkipped"
  using assms mutator_no_name mutator_no_name_check
  by (auto simp add: run_entry_def req_def split: if_splits option.splits sum.splits)

lemma req_delete: "k' \<noteq> k \<Longrightarrow> req (AList.delete k td) k' = req td k'"
  by (simp add: req_def)

lemma dict_get_delete: "k' \<noteq> k \<Longrightarrow> dict_get (AList.delete k td) k' d = dict_get td k' d"
  by (simp add: dict_get_def)

lemma dict_get_delete_same: "dict_get (AList.delete k td) k d = d"
  by (simp add: dict_get_def delete_conv')

lemma run_entry_delete_axis_name:
  assumes "axis_name_of (dict_get td ''axis_name'' PNone) = None"
  shows "run_entry B axes (PDict (AList.delete ''axis_name'' td)) = run_entry B axes (PDict td)"
proof -
  have r: "req (AList.delete ''axis_name'' td) ''axis'' = req td ''axis''"
    "req (AList.delete ''axis_name'' td) ''field'' = req td ''field''"
    "req (AList.delete ''axis_name'' td) ''original'' = req td ''original''"
    "req (AList.delete ''axis_name'' td) ''patched'' = req td ''patched''"
    by (simp_all add: req_delete)
  have d: "dict_get (AList.delete ''axis_name'' td) ''type'' PNone = dict_get td ''type'' PNone"
    "dict_get (AList.delete ''axis_name'' td) ''axis'' PNone = dict_get td ''axis'' PNone"
    by (simp_all add: dict_get_delete)
  have n: "axis_name_of (dict_get (AList.delete ''axis_name'' td) ''axis_name'' PNone) = None"
    by (simp add: dict_get_delete_same)
  show ?thesis
    unfolding run_entry_def pyval.case r d n assms ..
qed

text \<open>
  Claim C10. When the \<open>axis_name\<close> of a toggle entry is an empty string, a string of
  white space only, or not a string, the entry is handled as if it had no \<open>axis_name\<close>:
  the mutator gets no expected name, the result is that of the entry with the key removed,
  it is never the name-mismatch error, and a successful entry reports
  \<open>axis_name_skipped\<close>.
\<close>

theorem run_entry_blank_axis_name:
  assumes "case dict_get td ''axis_name'' PNone of PStr s \<Rightarrow> list_all is_space s | _ \<Rightarrow> True"
  shows "axis_name_of (dict_get td ''axis_name'' PNone) = None
     \<and> run_entry B axes (PDict td) = run_entry B axes (PDict (AList.delete ''axis_name'' td))
     \<and> (\<forall>j n v. fst (run_entry B axes (PDict td)) \<noteq> Inl (AxisNameMismatch j n v))
     \<and> (\<forall>mode line chk axes'. run_entry B axes (PDict td) = (Inr (mode, line, chk), axes')
           \<longrightarrow> chk = AxisNameSkipped)"
  using axis_name_of_blank [OF assms]
    run_entry_no_name [of td B axes] run_entry_delete_axis_name [of td B axes]
  by auto

text \<open>An entry whose \<open>axis_name\<close> is two spaces, and one whose \<open>axis_name\<close> is the number 5.\<close>

theorem run_entry_blank_axis_name_witness:
  "run_entry \<lparr>int_of_str = (\<lambda>s. None), str_of_val = (\<lambda>v. [])\<rparr>
      [PDict [(''m_Name'', PStr ''Horizontal''), (''sensitivity'', PFloat (Fin 1))]]
      (PDict [(''type'', PStr ''legacy_axis_field''), (''axis'', PInt 0),
              (''field'', PStr ''sensitivity''), (''original'', PFloat (Fin 1)),
              (''patched'', PFloat (Fin 0)), (''axis_name'', PStr ''  '')])
     = (Inr (''applied'', LogLine 0 (PStr ''Horizontal'') ''sensitivity'' (PFloat (Fin 1)) (PFloat (Fin 0)),
             AxisNameSkipped),
        [PDict [(''m_Name'', PStr ''Horizontal''), (''sensitivity'', PFloat (Fin 0))]])
   \<and> run_entry \<lparr>int_of_str = (\<lambda>s. None), str_of_val = (\<lambda>v. [])\<rparr>
      [PDict [(''m_Name'', PStr ''Horizontal''), (''sensitivity'', PFloat (Fin 1))]]
      (PDict [(''type'', PStr ''legacy_axis_field''), (''axis'', PInt 0),
              (''field'', PStr ''sensitivity''), (''original'', PFloat (Fin 1)),
              (''patched'', PFloat (Fin 0)), (''axis_name'', PInt 5)])
     = (Inr (''applied'', LogLine 0 (PStr ''Horizontal'') ''sensitivity'' (PFloat (Fin 1)) (PFloat (Fin 0)),
             AxisNameSkipped),
        [PDict [(''m_Name'', PStr ''Horizontal''), (''sensitivity'', PFloat (Fin 0))]])"
proof -
  define B where "B = \<lparr>int_of_str = (\<lambda>s. None), str_of_val = (\<lambda>v. [])\<rparr>"
  define axes where "axes = [PDict [(''m_Name'', PStr ''Horizontal''), (''sensitivity'', PFloat (Fin 1))]]"
  define base where "base = [(''type'', PStr ''legacy_axis_field''), (''axis'', PInt 0),
              (''field'', PStr ''sensitivity''), (''original'', PFloat (Fin 1)),
              (''patched'', PFloat (Fin 0))]"
  have td: "toggle_decision (PFloat (Fin 1)) (PFloat (Fin 1)) (PFloat (Fin 0)) = Inr (PFloat (Fin 0), ''applied'')"
    by (simp add: toggle_decision_def equal_py_floats)
  have r: "run_entry B axes (PDict base)
     = (Inr (''applied'', LogLine 0 (PStr ''Horizontal'') ''sensitivity'' (PFloat (Fin 1)) (PFloat (Fin 0)),
             AxisNameSkipped),
        [PDict [(''m_Name'', PStr ''Horizontal''), (''sensitivity'', PFloat (Fin 0))]])"
    by (simp add: run_entry_def req_def dict_get_def toggle_legacy_axis_field_def td
        base_def axes_def)
  have d1: "AList.delete ''axis_name'' (base @ [(''axis_name'', PStr ''  '')]) = base"
    and d2: "AList.delete ''axis_name'' (base @ [(''axis_name'', PInt 5)]) = base"
    by (simp_all add: base_def AList.delete_eq)
  have 1: "run_entry B axes (PDict (base @ [(''axis_name'', PStr ''  '')])) = run_entry B axes (PDict base)"
    using run_entry_blank_axis_name [of "base @ [(''axis_name'', PStr ''  '')]" B axes]
    by (simp add: d1) (simp add: base_def dict_get_def is_space_def)
  have 2: "run_entry B axes (PDict (base @ [(''axis_name'', PInt 5)])) = run_entry B axes (PDict base)"
    using run_entry_blank_axis_name [of "base @ [(''axis_name'', PInt 5)]" B axes]
    by (simp add: d2) (simp add: base_def dict_get_def)
  from 1 2 r show ?thesis by (simp add: B_def axes_def base_def)
qed

lemma run_toggles_append:
  "run_toggles B axes mode_seen checks logs (ts1 @ ts2) =
     (case run_toggles B axes mode_seen checks logs ts1 of
        (Inl e, axes') \<Rightarrow> (Inl e, axes')
      | (Inr (mode_seen', checks', logs'), axes') \<Rightarrow> run_toggles B axes' mode_seen' checks' logs' ts2)"
proof (induction ts1 arbitrary: axes mode_seen checks logs)
  case Nil
  show ?case by simp
next
  case (Cons t ts1)
  show ?case
    by (simp add: Cons.IH split: prod.splits sum.splits option.splits)
qed

lemma run_toggles_mixed:
  assumes "run_toggles B axes mode_seen checks logs ts1 = (Inr (Some m, checks', logs'), axes1)"
    and "run_entry B axes1 t = (Inr (m', line, chk), axes2)"
    and "m' \<noteq> m"
  shows "run_toggles B axes mode_seen checks logs (ts1 @ t # ts2) = (Inl MixedApplyRevert, axes2)"
  using assms by (simp add: run_toggles_append)

lemma run_error_world:
  assumes "run B W game_root patch = (Inl e, W')"
  shows "W' = W"
  using assms by (auto simp add: run_def split: sum.splits prod.splits)

lemma run_success_loop:
  assumes "run B W game_root patch = (Inr out, W')"
  shows "\<exists>P axes'. run_prepare B W game_root patch = Inr P
     \<and> run_toggles B (p_axes P) None [] [] (p_toggles P) = (Inr out, axes')
     \<and> run_commit W P axes' = Inr W'"
  using assms by (auto simp add: run_def split: sum.splits prod.splits)

text \<open>
  Claim C3. Take a run that reaches the loop. If some entry, met after a prefix of
  entries that all succeeded with direction \<open>m\<close>, is resolved by the mutator with
  another direction, the run fails with the mixed apply/revert error and the file system
  is what it was before the run. More generally every run that fails leaves the file
  system as it was, and a run that returns has completed the loop over all entries
  before the commit, its only write.
\<close>

theorem run_mixed_directions:
  assumes "run_prepare B W game_root patch = Inr P"
    and "p_toggles P = ts1 @ t # ts2"
    and "run_toggles B (p_axes P) None [] [] ts1 = (Inr (Some m, checks, logs), axes1)"
    and "run_entry B axes1 t = (Inr (m', line, chk), axes2)"
    and "m' \<noteq> m"
  shows "run B W game_root patch = (Inl MixedApplyRevert, W)
     \<and> (\<forall>B' W0 r p e W'. run B' W0 r p = (Inl e, W') \<longrightarrow> W' = W0)
     \<and> (\<forall>B' W0 r p out W'. run B' W0 r p = (Inr out, W') \<longrightarrow>
           (\<exists>P' axes'. run_prepare B' W0 r p = Inr P'
              \<and> run_toggles B' (p_axes P') None [] [] (p_toggles P') = (Inr out, axes')
              \<and> run_commit W0 P' axes' = Inr W'))"
proof -
  have "run_toggles B (p_axes P) None [] [] (p_toggles P) = (Inl MixedApplyRevert, axes2)"
    unfolding assms(2) using assms(3,4,5) by (rule run_toggles_mixed)
  then have "run B W game_root patch = (Inl MixedApplyRevert, W)"
    by (simp add: run_def assms(1))
  then show ?thesis using run_error_world run_success_loop by blast
qed

text \<open>
  Two entries on the same field of two axes, the first axis in the original state and the
  second in the patched state: the first entry applies, the second reverts, and the run
  fails with the file untouched.
\<close>

theorem run_mixed_directions_witness:
  "run \<lparr>int_of_str = (\<lambda>s. None), str_of_val = (\<lambda>v. [])\<rparr>
      \<lparr>exists_under = (\<lambda>p x. True),
       files = (\<lambda>k. if k = (Path ''C:'' [''Game''], ''data/ggm'')
          then Some [\<lparr>type_name = ''InputManager'',
                      tree = [(''m_Axes'', PList
                         [PDict [(''m_Name'', PStr ''Horizontal''), (''sensitivity'', PFloat (Fin 1))],
                          PDict [(''m_Name'', PStr ''Vertical''), (''sensitivity'', PFloat (Fin 0))]])]\<rparr>]
          else None),
       writable = (\<lambda>k. True)\<rparr>
      (Path ''C:'' [''Game''])
      [(''file'', PStr ''data/ggm''),
       (''toggle'', PList
          [PDict [(''type'', PStr ''legacy_axis_field''), (''axis'', PInt 0),
                  (''field'', PStr ''sensitivity''), (''original'', PFloat (Fin 1)),
                  (''patched'', PFloat (Fin 0))],
           PDict [(''type'', PStr ''legacy_axis_field''), (''axis'', PInt 1),
                  (''field'', PStr ''sensitivity''), (''original'', PFloat (Fin 1)),
                  (''patched'', PFloat (Fin 0))]])]
     = (Inl MixedApplyRevert,
        \<lparr>exists_under = (\<lambda>p x. True),
         files = (\<lambda>k. if k = (Path ''C:'' [''Game''], ''data/ggm'')
          then Some [\<lparr>type_name = ''InputManager'',
                      tree = [(''m_Axes'', PList
                         [PDict [(''m_Name'', PStr ''Horizontal''), (''sensitivity'', PFloat (Fin 1))],
                          PDict [(''m_Name'', PStr ''Vertical''), (''sensitivity'', PFloat (Fin 0))]])]\<rparr>]
          else None),
         writable = (\<lambda>k. True)\<rparr>)"
proof -
  define B where "B = \<lparr>int_of_str = (\<lambda>s. None), str_of_val = (\<lambda>v. [])\<rparr>"
  define ax0 where "ax0 = PDict [(''m_Name'', PStr ''Horizontal''), (''sensitivity'', PFloat (Fin 1))]"
  define ax0' where "ax0' = PDict [(''m_Name'', PStr ''Horizontal''), (''sensitivity'', PFloat (Fin 0))]"
  define ax1 where "ax1 = PDict [(''m_Name'', PStr ''Vertical''), (''sensitivity'', PFloat (Fin 0))]"
  define ax1' where "ax1' = PDict [(''m_Name'', PStr ''Vertical''), (''sensitivity'', PFloat (Fin 1))]"
  define im where "im = \<lparr>type_name = ''InputManager'', tree = [(''m_Axes'', PList [ax0, ax1])]\<rparr>"
  define W where "W = \<lparr>exists_under = (\<lambda>p x. True),
       files = (\<lambda>k. if k = (Path ''C:'' [''Game''], ''data/ggm'') then Some [im] else None),
       writable = (\<lambda>k. True)\<rparr>"
  define t0 where "t0 = PDict [(''type'', PStr ''legacy_axis_field''), (''axis'', PInt 0),
                  (''field'', PStr ''sensitivity''), (''original'', PFloat (Fin 1)),
                  (''patched'', PFloat (Fin 0))]"
  define t1 where "t1 = PDict [(''type'', PStr ''legacy_axis_field''), (''axis'', PInt 1),
                  (''field'', PStr ''sensitivity''), (''original'', PFloat (Fin 1)),
                  (''patched'', PFloat (Fin 0))]"
  define patch where "patch = [(''file'', PStr ''data/ggm''), (''toggle'', PList [t0, t1])]"
  define P where "P = \<lparr>p_root = Path ''C:'' [''Game''], p_rel = ''data/ggm'', p_toggles = [t0, t1],
      p_objects = [im], p_im = 0, p_tree = [(''m_Axes'', PList [ax0, ax1])], p_axes = [ax0, ax1]\<rparr>"
  have sp: "strip_nonempty ''data/ggm''" by (simp add: strip_nonempty_def is_space_def)
  have prep: "run_prepare B W (Path ''C:'' [''Game'']) patch = Inr P"
    by (simp add: run_prepare_def run_root_def dict_get_def patch_def sp W_def im_def P_def)
  have tg: "p_toggles P = [t0] @ t1 # []" by (simp add: P_def)
  have td1: "toggle_decision (PFloat (Fin 1)) (PFloat (Fin 1)) (PFloat (Fin 0)) = Inr (PFloat (Fin 0), ''applied'')"
    by (simp add: toggle_decision_def equal_py_floats)
  have td2: "toggle_decision (PFloat (Fin 0)) (PFloat (Fin 1)) (PFloat (Fin 0)) = Inr (PFloat (Fin 1), ''reverted'')"
    by (simp add: toggle_decision_def equal_py_floats)
  have e0: "run_entry B [ax0, ax1] t0 =
      (Inr (''applied'', LogLine 0 (PStr ''Horizontal'') ''sensitivity'' (PFloat (Fin 1)) (PFloat (Fin 0)),
            AxisNameSkipped), [ax0', ax1])"
    by (simp add: run_entry_def req_def dict_get_def toggle_legacy_axis_field_def td1
        t0_def ax0_def ax0'_def)
  then have l0: "run_toggles B (p_axes P) None [] [] [t0] =
      (Inr (Some ''applied'', [AxisNameSkipped],
            [LogLine 0 (PStr ''Horizontal'') ''sensitivity'' (PFloat (Fin 1)) (PFloat (Fin 0))]),
       [ax0', ax1])"
    by (simp add: P_def)
  have e1: "run_entry B [ax0', ax1] t1 =
      (Inr (''reverted'', LogLine 1 (PStr ''Vertical'') ''sensitivity'' (PFloat (Fin 0)) (PFloat (Fin 1)),
            AxisNameSkipped), [ax0', ax1'])"
    by (simp add: run_entry_def req_def dict_get_def toggle_legacy_axis_field_def td2
        t1_def ax1_def ax1'_def)
  have ne: "''reverted'' \<noteq> ''applied''" by simp
  from run_mixed_directions [OF prep tg l0 e1 ne]
  have "run B W (Path ''C:'' [''Game'']) patch = (Inl MixedApplyRevert, W)" by simp
  then show ?thesis
    unfolding B_def W_def patch_def t0_def t1_def im_def ax0_def ax1_def .
qed

lemma run_toggles_entry_error:
  assumes "run_toggles B axes mode_seen checks logs ts1 = (Inr (mode_seen', checks', logs'), axes1)"
    and "run_entry B axes1 t = (Inl e, axes2)"
  shows "run_toggles B axes mode_seen checks logs (ts1 @ t # ts2) = (Inl e, axes2)"
  using assms by (simp add: run_toggles_append)

lemma run_loop_error:
  assumes "run_prepare B W game_root patch = Inr P"
    and "run_toggles B (p_axes P) None [] [] (p_toggles P) = (Inl e, axes')"
  shows "run B W game_root patch = (Inl e, W)"
  using assms by (simp add: run_def)

lemma run_toggles_entry_cong:
  assumes "\<And>axes'. run_entry B axes' t = run_entry B axes' t'"
  shows "run_toggles B axes mode_seen checks logs (ts1 @ t # ts2) =
         run_toggles B axes mode_seen checks logs (ts1 @ t' # ts2)"
  by (simp add: run_toggles_append assms split: prod.splits sum.splits)

lemma req_update: "k' \<noteq> k \<Longrightarrow> req (AList.update k v td) k' = req td k'"
  by (simp add: req_def update_conv')

lemma dict_get_update: "k' \<noteq> k \<Longrightarrow> dict_get (AList.update k v td) k' d = dict_get td k' d"
  by (simp add: dict_get_def update_conv')

lemma run_entry_axis_as_int:
  assumes "map_of td ''axis'' = Some v" and "py_int B v = Inr i"
  shows "run_entry B axes (PDict td) = run_entry B axes (PDict (AList.update ''axis'' (PInt i) td))"
proof -
  have r: "req (AList.update ''axis'' (PInt i) td) ''field'' = req td ''field''"
    "req (AList.update ''axis'' (PInt i) td) ''original'' = req td ''original''"
    "req (AList.update ''axis'' (PInt i) td) ''patched'' = req td ''patched''"
    by (simp_all add: req_update)
  have d: "dict_get (AList.update ''axis'' (PInt i) td) ''type'' PNone = dict_get td ''type'' PNone"
    "dict_get (AList.update ''axis'' (PInt i) td) ''axis_name'' PNone = dict_get td ''axis_name'' PNone"
    by (simp_all add: dict_get_update)
  have a: "(case req td ''axis'' of Inl e \<Rightarrow> Inl e | Inr v \<Rightarrow> py_int B v) = Inr i"
    using assms by (simp add: req_def)
  have a': "(case req (AList.update ''axis'' (PInt i) td) ''axis'' of Inl e \<Rightarrow> Inl e | Inr v \<Rightarrow> py_int B v) = Inr i"
    by (simp add: req_def update_conv')
  show ?thesis
    unfolding run_entry_def pyval.case r d a a' sum.case ..
qed

text \<open>
  Claim C8. Take a run that reaches the loop and a toggle entry of the supported type
  that the loop gets to, the entries before it having succeeded. When the \<open>axis\<close> of the
  entry is missing, or is a value on which \<^verbatim>\<open>int\<close> raises (\<^verbatim>\<open>None\<close>, a list, a dictionary,
  a float that is not finite, a string that is not an integer literal), the run fails
  with the non-integer-axis error and the file system is what it was. Any other value is
  coerced, an integer as it is, a boolean to 0 or 1, a finite float by truncation towards
  zero, a string holding an integer literal by parsing it, and the run goes on as if the
  entry held that integer: the mutator is called with the coerced index.
\<close>

theorem run_non_integer_axis:
  assumes "run_prepare B W game_root patch = Inr P"
    and "p_toggles P = ts1 @ PDict td # ts2"
    and "run_toggles B (p_axes P) None [] [] ts1 = (Inr (mode_seen, checks, logs), axes1)"
    and "py_eq (dict_get td ''type'' PNone) (PStr ''legacy_axis_field'')"
  shows "(map_of td ''axis'' = None
           \<longrightarrow> run B W game_root patch = (Inl (NonIntegerAxis PNone), W))
     \<and> (map_of td ''axis'' = Some v \<and> py_int B v = Inl e
           \<longrightarrow> run B W game_root patch = (Inl (NonIntegerAxis v), W))
     \<and> (map_of td ''axis'' = Some v \<and> py_int B v = Inr i
           \<longrightarrow> run_toggles B (p_axes P) None [] [] (p_toggles P) =
                 run_toggles B (p_axes P) None [] []
                   (ts1 @ PDict (AList.update ''axis'' (PInt i) td) # ts2))
     \<and> (map_of td ''axis'' = Some v \<and> py_int B v = Inr i \<and> map_of td ''field'' = Some fv
         \<and> map_of td ''original'' = Some original \<and> map_of td ''patched'' = Some patched
           \<longrightarrow> run_entry B axes1 (PDict td) =
                 toggle_legacy_axis_field axes1 i (py_str B fv) original patched
                   (axis_name_of (dict_get td ''axis_name'' PNone)))
     \<and> ((\<exists>e'. py_int B v = Inl e') \<longleftrightarrow>
          (case v of PNone \<Rightarrow> True | PList xs \<Rightarrow> True | PDict d \<Rightarrow> True
           | PFloat f \<Rightarrow> \<not> isfinite f | PStr s \<Rightarrow> int_of_str B s = None | _ \<Rightarrow> False))
     \<and> py_int B (PInt n) = Inr n
     \<and> py_int B (PBool b) = Inr (if b then 1 else 0)
     \<and> py_int B (PFloat (Fin r)) = Inr (if r < 0 then - \<lfloor>- r\<rfloor> else \<lfloor>r\<rfloor>)
     \<and> (int_of_str B s = Some n \<longrightarrow> py_int B (PStr s) = Inr n)"
proof -
  have 1: "map_of td ''axis'' = None
      \<longrightarrow> run B W game_root patch = (Inl (NonIntegerAxis PNone), W)"
  proof
    assume "map_of td ''axis'' = None"
    with assms(4) have "run_entry B axes1 (PDict td) = (Inl (NonIntegerAxis PNone), axes1)"
      by (rule run_entry_axis_missing)
    with assms(3)
    have "run_toggles B (p_axes P) None [] [] (ts1 @ PDict td # ts2) = (Inl (NonIntegerAxis PNone), axes1)"
      by (rule run_toggles_entry_error)
    then show "run B W game_root patch = (Inl (NonIntegerAxis PNone), W)"
      using assms(1) by (simp only: assms(2) [symmetric]) (rule run_loop_error)
  qed
  have 2: "map_of td ''axis'' = Some v \<and> py_int B v = Inl e
      \<longrightarrow> run B W game_root patch = (Inl (NonIntegerAxis v), W)"
  proof
    assume h: "map_of td ''axis'' = Some v \<and> py_int B v = Inl e"
    then have "run_entry B axes1 (PDict td) = (Inl (NonIntegerAxis v), axes1)"
      using assms(4) by (simp add: run_entry_axis_rejected)
    with assms(3)
    have "run_toggles B (p_axes P) None [] [] (ts1 @ PDict td # ts2) = (Inl (NonIntegerAxis v), axes1)"
      by (rule run_toggles_entry_error)
    then show "run B W game_root patch = (Inl (NonIntegerAxis v), W)"
      using assms(1) by (simp only: assms(2) [symmetric]) (rule run_loop_error)
  qed
  have 3: "map_of td ''axis'' = Some v \<and> py_int B v = Inr i
      \<longrightarrow> run_toggles B (p_axes P) None [] [] (p_toggles P) =
            run_toggles B (p_axes P) None [] []
              (ts1 @ PDict (AList.update ''axis'' (PInt i) td) # ts2)"
  proof
    assume h: "map_of td ''axis'' = Some v \<and> py_int B v = Inr i"
    then have "\<And>axes'. run_entry B axes' (PDict td) =
        run_entry B axes' (PDict (AList.update ''axis'' (PInt i) td))"
      by (simp add: run_entry_axis_as_int)
    then show "run_toggles B (p_axes P) None [] [] (p_toggles P) =
            run_toggles B (p_axes P) None [] []
              (ts1 @ PDict (AList.update ''axis'' (PInt i) td) # ts2)"
      unfolding assms(2) by (rule run_toggles_entry_cong)
  qed
  from 1 2 3 run_entry_axis_coerced [OF assms(4), of v B i fv original patched axes1]
    py_int_fails_iff [of B v]
  show ?thesis by simp
qed

text \<open>A run whose only entry has a word as its axis, and one whose entry has no axis.\<close>

theorem run_non_integer_axis_witness:
  "run \<lparr>int_of_str = (\<lambda>s. None), str_of_val = (\<lambda>v. [])\<rparr>
      \<lparr>exists_under = (\<lambda>p x. True),
       files = (\<lambda>k. if k = (Path ''C:'' [''Game''], ''data/ggm'')
          then Some [\<lparr>type_name = ''InputManager'',
                      tree = [(''m_Axes'', PList
                         [PDict [(''m_Name'', PStr ''Horizontal''), (''sensitivity'', PFloat (Fin 1))]])]\<rparr>]
          else None),
       writable = (\<lambda>k. True)\<rparr>
      (Path ''C:'' [''Game''])
      [(''file'', PStr ''data/ggm''),
       (''toggle'', PList
          [PDict [(''type'', PStr ''legacy_axis_field''), (''axis'', PStr ''zero''),
                  (''field'', PStr ''sensitivity''), (''original'', PFloat (Fin 1)),
                  (''patched'', PFloat (Fin 0))]])]
     = (Inl (NonIntegerAxis (PStr ''zero'')),
        \<lparr>exists_under = (\<lambda>p x. True),
         files = (\<lambda>k. if k = (Path ''C:'' [''Game''], ''data/ggm'')
          then Some [\<lparr>type_name = ''InputManager'',
                      tree = [(''m_Axes'', PList
                         [PDict [(''m_Name'', PStr ''Horizontal''), (''sensitivity'', PFloat (Fin 1))]])]\<rparr>]
          else None),
         writable = (\<lambda>k. True)\<rparr>)
   \<and> run \<lparr>int_of_str = (\<lambda>s. None), str_of_val = (\<lambda>v. [])\<rparr>
      \<lparr>exists_under = (\<lambda>p x. True),
       files = (\<lambda>k. if k = (Path ''C:'' [''Game''], ''data/ggm'')
          then Some [\<lparr>type_name = ''InputManager'',
                      tree = [(''m_Axes'', PList
                         [PDict [(''m_Name'', PStr ''Horizontal''), (''sensitivity'', PFloat (Fin 1))]])]\<rparr>]
          else None),
       writable = (\<lambda>k. True)\<rparr>
      (Path ''C:'' [''Game''])
      [(''file'', PStr ''data/ggm''),
       (''toggle'', PList
          [PDict [(''type'', PStr ''legacy_axis_field''),
                  (''field'', PStr ''sensitivity''), (''original'', PFloat (Fin 1)),
                  (''patched'', PFloat (Fin 0))]])]
     = (Inl (NonIntegerAxis PNone),
        \<lparr>exists_under = (\<lambda>p x. True),
         files = (\<lambda>k. if k = (Path ''C:'' [''Game''], ''data/ggm'')
          then Some [\<lparr>type_name = ''InputManager'',
                      tree = [(''m_Axes'', PList
                         [PDict [(''m_Name'', PStr ''Horizontal''), (''sensitivity'', PFloat (Fin 1))]])]\<rparr>]
          else None),
         writable = (\<lambda>k. True)\<rparr>)"
proof -
  define B where "B = \<lparr>int_of_str = (\<lambda>s. None), str_of_val = (\<lambda>v. [])\<rparr>"
  define ax0 where "ax0 = PDict [(''m_Name'', PStr ''Horizontal''), (''sensitivity'', PFloat (Fin 1))]"
  define im where "im = \<lparr>type_name = ''InputManager'', tree = [(''m_Axes'', PList [ax0])]\<rparr>"
  define W where "W = \<lparr>exists_under = (\<lambda>p x. True),
       files = (\<lambda>k. if k = (Path ''C:'' [''Game''], ''data/ggm'') then Some [im] else None),
       writable = (\<lambda>k. True)\<rparr>"
  define td1 where "td1 = [(''type'', PStr ''legacy_axis_field''), (''axis'', PStr ''zero''),
                  (''field'', PStr ''sensitivity''), (''original'', PFloat (Fin 1)),
                  (''patched'', PFloat (Fin 0))]"
  define td2 where "td2 = [(''type'', PStr ''legacy_axis_field''),
                  (''field'', PStr ''sensitivity''), (''original'', PFloat (Fin 1)),
                  (''patched'', PFloat (Fin 0))]"
  define patch1 where "patch1 = [(''file'', PStr ''data/ggm''), (''toggle'', PList [PDict td1])]"
  define patch2 where "patch2 = [(''file'', PStr ''data/ggm''), (''toggle'', PList [PDict td2])]"
  define P1 where "P1 = \<lparr>p_root = Path ''C:'' [''Game''], p_rel = ''data/ggm'', p_toggles = [PDict td1],
      p_objects = [im], p_im = 0, p_tree = [(''m_Axes'', PList [ax0])], p_axes = [ax0]\<rparr>"
  define P2 where "P2 = \<lparr>p_root = Path ''C:'' [''Game''], p_rel = ''data/ggm'', p_toggles = [PDict td2],
      p_objects = [im], p_im = 0, p_tree = [(''m_Axes'', PList [ax0])], p_axes = [ax0]\<rparr>"
  have sp: "strip_nonempty ''data/ggm''" by (simp add: strip_nonempty_def is_space_def)
  have prep1: "run_prepare B W (Path ''C:'' [''Game'']) patch1 = Inr P1"
    by (simp add: run_prepare_def run_root_def dict_get_def patch1_def sp W_def im_def P1_def)
  have prep2: "run_prepare B W (Path ''C:'' [''Game'']) patch2 = Inr P2"
    by (simp add: run_prepare_def run_root_def dict_get_def patch2_def sp W_def im_def P2_def)
  have tg1: "p_toggles P1 = [] @ PDict td1 # []" by (simp add: P1_def)
  have tg2: "p_toggles P2 = [] @ PDict td2 # []" by (simp add: P2_def)
  have l1: "run_toggles B (p_axes P1) None [] [] [] = (Inr (None, [], []), p_axes P1)" by simp
  have l2: "run_toggles B (p_axes P2) None [] [] [] = (Inr (None, [], []), p_axes P2)" by simp
  have ty1: "py_eq (dict_get td1 ''type'' PNone) (PStr ''legacy_axis_field'')"
    by (simp add: td1_def dict_get_def)
  have ty2: "py_eq (dict_get td2 ''type'' PNone) (PStr ''legacy_axis_field'')"
    by (simp add: td2_def dict_get_def)
  have 1: "run B W (Path ''C:'' [''Game'']) patch1 = (Inl (NonIntegerAxis (PStr ''zero'')), W)"
    using run_non_integer_axis [OF prep1 tg1 l1 ty1, where v = "PStr ''zero''" and e = ValueError]
    by (simp add: td1_def B_def)
  have 2: "run B W (Path ''C:'' [''Game'']) patch2 = (Inl (NonIntegerAxis PNone), W)"
    using run_non_integer_axis [OF prep2 tg2 l2 ty2] by (simp add: td2_def)
  from 1 2 show ?thesis
    unfolding B_def W_def patch1_def patch2_def td1_def td2_def im_def ax0_def by simp
qed

text \<open>
  An axis that is not an integer does not always end the run: with the axis \<open>1.5\<close> the
  run succeeds, reports \<open>applied\<close> for the element at index 1 and writes the file with
  that element patched.
\<close>

theorem run_non_integer_axis_counterexample:
  "fst (run \<lparr>int_of_str = (\<lambda>s. None), str_of_val = (\<lambda>v. [])\<rparr>
      \<lparr>exists_under = (\<lambda>p x. True),
       files = (\<lambda>k. if k = (Path ''C:'' [''Game''], ''data/ggm'')
          then Some [\<lparr>type_name = ''InputManager'',
                      tree = [(''m_Axes'', PList
                         [PDict [(''m_Name'', PStr ''Horizontal''), (''sensitivity'', PFloat (Fin 1))],
                          PDict [(''m_Name'', PStr ''Vertical''), (''sensitivity'', PFloat (Fin 1))]])]\<rparr>]
          else None),
       writable = (\<lambda>k. True)\<rparr>
      (Path ''C:'' [''Game''])
      [(''file'', PStr ''data/ggm''),
       (''toggle'', PList
          [PDict [(''type'', PStr ''legacy_axis_field''), (''axis'', PFloat (Fin (3 / 2))),
                  (''field'', PStr ''sensitivity''), (''original'', PFloat (Fin 1)),
                  (''patched'', PFloat (Fin 0))]])])
     = Inr (Some ''applied'', [AxisNameSkipped],
            [LogLine 1 (PStr ''Vertical'') ''sensitivity'' (PFloat (Fin 1)) (PFloat (Fin 0))])
   \<and> files (snd (run \<lparr>int_of_str = (\<lambda>s. None), str_of_val = (\<lambda>v. [])\<rparr>
      \<lparr>exists_under = (\<lambda>p x. True),
       files = (\<lambda>k. if k = (Path ''C:'' [''Game''], ''data/ggm'')
          then Some [\<lparr>type_name = ''InputManager'',
                      tree = [(''m_Axes'', PList
                         [PDict [(''m_Name'', PStr ''Horizontal''), (''sensitivity'', PFloat (Fin 1))],
                          PDict [(''m_Name'', PStr ''Vertical''), (''sensitivity'', PFloat (Fin 1))]])]\<rparr>]
          else None),
       writable = (\<lambda>k. True)\<rparr>
      (Path ''C:'' [''Game''])
      [(''file'', PStr ''data/ggm''),
       (''toggle'', PList
          [PDict [(''type'', PStr ''legacy_axis_field''), (''axis'', PFloat (Fin (3 / 2))),
                  (''field'', PStr ''sensitivity''), (''original'', PFloat (Fin 1)),
                  (''patched'', PFloat (Fin 0))]])]))
       (Path ''C:'' [''Game''], ''data/ggm'')
     = Some [\<lparr>type_name = ''InputManager'',
              tree = [(''m_Axes'', PList
                 [PDict [(''m_Name'', PStr ''Horizontal''), (''sensitivity'', PFloat (Fin 1))],
                  PDict [(''m_Name'', PStr ''Vertical''), (''sensitivity'', PFloat (Fin 0))]])]\<rparr>]"
proof -
  define B where "B = \<lparr>int_of_str = (\<lambda>s. None), str_of_val = (\<lambda>v. [])\<rparr>"
  define ax0 where "ax0 = PDict [(''m_Name'', PStr ''Horizontal''), (''sensitivity'', PFloat (Fin 1))]"
  define ax1 where "ax1 = PDict [(''m_Name'', PStr ''Vertical''), (''sensitivity'', PFloat (Fin 1))]"
  define ax1' where "ax1' = PDict [(''m_Name'', PStr ''Vertical''), (''sensitivity'', PFloat (Fin 0))]"
  define im where "im = \<lparr>type_name = ''InputManager'', tree = [(''m_Axes'', PList [ax0, ax1])]\<rparr>"
  define W where "W = \<lparr>exists_under = (\<lambda>p x. True),
       files = (\<lambda>k. if k = (Path ''C:'' [''Game''], ''data/ggm'') then Some [im] else None),
       writable = (\<lambda>k. True)\<rparr>"
  define t where "t = PDict [(''type'', PStr ''legacy_axis_field''), (''axis'', PFloat (Fin (3 / 2))),
                  (''field'', PStr ''sensitivity''), (''original'', PFloat (Fin 1)),
                  (''patched'', PFloat (Fin 0))]"
  define patch where "patch = [(''file'', PStr ''data/ggm''), (''toggle'', PList [t])]"
  define P where "P = \<lparr>p_root = Path ''C:'' [''Game''], p_rel = ''data/ggm'', p_toggles = [t],
      p_objects = [im], p_im = 0, p_tree = [(''m_Axes'', PList [ax0, ax1])], p_axes = [ax0, ax1]\<rparr>"
  have sp: "strip_nonempty ''data/ggm''" by (simp add: strip_nonempty_def is_space_def)
  have prep: "run_prepare B W (Path ''C:'' [''Game'']) patch = Inr P"
    by (simp add: run_prepare_def run_root_def dict_get_def patch_def sp W_def im_def P_def)
  have td: "toggle_decision (PFloat (Fin 1)) (PFloat (Fin 1)) (PFloat (Fin 0)) = Inr (PFloat (Fin 0), ''applied'')"
    by (simp add: toggle_decision_def equal_py_floats)
  have fl: "\<lfloor>3 / 2 :: rat\<rfloor> = 1" by (simp add: floor_eq_iff)
  have e: "run_entry B [ax0, ax1] t =
      (Inr (''applied'', LogLine 1 (PStr ''Vertical'') ''sensitivity'' (PFloat (Fin 1)) (PFloat (Fin 0)),
            AxisNameSkipped), [ax0, ax1'])"
    by (simp add: run_entry_def req_def dict_get_def toggle_legacy_axis_field_def td fl
        t_def ax1_def ax1'_def)
  have l: "run_toggles B (p_axes P) None [] [] (p_toggles P) =
      (Inr (Some ''applied'', [AxisNameSkipped],
            [LogLine 1 (PStr ''Vertical'') ''sensitivity'' (PFloat (Fin 1)) (PFloat (Fin 0))]),
       [ax0, ax1'])"
    by (simp add: P_def e)
  have c: "run_commit W P [ax0, ax1'] =
      Inr (W\<lparr>files := (files W)((Path ''C:'' [''Game''], ''data/ggm'') \<mapsto>
             [\<lparr>type_name = ''InputManager'', tree = [(''m_Axes'', PList [ax0, ax1'])]\<rparr>])\<rparr>)"
    by (simp add: run_commit_def P_def W_def im_def)
  have r: "run B W (Path ''C:'' [''Game'']) patch =
      (Inr (Some ''applied'', [AxisNameSkipped],
            [LogLine 1 (PStr ''Vertical'') ''sensitivity'' (PFloat (Fin 1)) (PFloat (Fin 0))]),
       W\<lparr>files := (files W)((Path ''C:'' [''Game''], ''data/ggm'') \<mapsto>
             [\<lparr>type_name = ''InputManager'', tree = [(''m_Axes'', PList [ax0, ax1'])]\<rparr>])\<rparr>)"
    by (simp add: run_def prep l c)
  have "fst (run B W (Path ''C:'' [''Game'']) patch) =
      Inr (Some ''applied'', [AxisNameSkipped],
            [LogLine 1 (PStr ''Vertical'') ''sensitivity'' (PFloat (Fin 1)) (PFloat (Fin 0))])
    \<and> files (snd (run B W (Path ''C:'' [''Game'']) patch)) (Path ''C:'' [''Game''], ''data/ggm'')
       = Some [\<lparr>type_name = ''InputManager'', tree = [(''m_Axes'', PList [ax0, ax1'])]\<rparr>]"
    by (simp add: r)
  then show ?thesis
    unfolding B_def W_def patch_def t_def im_def ax0_def ax1_def ax1'_def .
qed

end
